theory Spec2Isabelle
  imports Main "HOL-Library.Sublist"
begin

section \<open>Values crossing the HTTP and the driver boundary\<close>

text \<open>
  A field of the parsed JSON body as the handlers of \<^verbatim>\<open>index.js\<close> see it after
  destructuring \<^verbatim>\<open>req.body\<close>.  \<open>JUndefined\<close> is an absent field.  \<open>JNum\<close> is a JSON
  number written as an integer (its JavaScript value is the nearest double); \<open>JOther\<close>
  stands for every remaining JSON value (an object, an array, a number with a fraction)
  and carries the text the database driver transmits for it.
\<close>

datatype jv = JUndefined | JNull | JBool bool | JNum int | JStr string | JOther string

text \<open>JavaScript truthiness, the test behind \<^verbatim>\<open>!id\<close>, \<^verbatim>\<open>!name\<close> and \<^verbatim>\<open>folder || null\<close>.\<close>

fun truthy :: "jv \<Rightarrow> bool" where
  "truthy JUndefined = False"
| "truthy JNull = False"
| "truthy (JBool b) = b"
| "truthy (JNum n) = (n \<noteq> 0)"
| "truthy (JStr s) = (s \<noteq> [])"
| "truthy (JOther s) = True"

definition or_null :: "jv \<Rightarrow> jv" where
  "or_null v = (if truthy v then v else JNull)"

text \<open>
  The text of an integer as \<^verbatim>\<open>Number.prototype.toString\<close> prints it.  Up to 2^53 every
  integer is a double and is printed with all its digits.
\<close>

definition digit_char :: "nat \<Rightarrow> char" where
  "digit_char d = ''0123456789'' ! d"

function dec_of_nat :: "nat \<Rightarrow> string" where
  "dec_of_nat n = (if n < 10 then [digit_char n] else dec_of_nat (n div 10) @ [digit_char (n mod 10)])"
  by pat_completeness auto
termination
  by (relation "measure id") auto

declare dec_of_nat.simps [simp del]

definition show_int :: "int \<Rightarrow> string" where
  "show_int i = (if i < 0 then CHR ''-'' # dec_of_nat (nat (- i)) else dec_of_nat (nat i))"

text \<open>
  Beyond 2^53 an integer is first rounded to the nearest double (ties to the even
  mantissa; 2^1024 and more is \<^verbatim>\<open>Infinity\<close>), and \<^verbatim>\<open>Number.prototype.toString\<close> prints the
  shortest digits that read back as the same double: followed by zeros below 10^21, in
  exponent form from there on.
\<close>

function bit_length :: "int \<Rightarrow> nat" where
  "bit_length n = (if n \<le> 0 then 0 else Suc (bit_length (n div 2)))"
  by pat_completeness auto
termination
  by (relation "measure nat") auto

declare bit_length.simps [simp del]

function dec_of_int :: "int \<Rightarrow> string" where
  "dec_of_int n =
     (if n < 10 then [digit_char (nat n)] else dec_of_int (n div 10) @ [digit_char (nat (n mod 10))])"
  by pat_completeness auto
termination
  by (relation "measure nat") auto

declare dec_of_int.simps [simp del]

definition js_double :: "int \<Rightarrow> int" where
  "js_double n =
     (let l = bit_length n
      in if l \<le> 53 then n
         else (let q = l - 53; m = n div 2 ^ q; r = n mod 2 ^ q; half = 2 ^ (q - 1);
                   m' = (if half < r \<or> (r = half \<and> odd m) then m + 1 else m)
               in m' * 2 ^ q))"

text \<open>The decimal value \<open>y\<close> reads back as the double \<open>x\<close>.\<close>

definition rounds_to :: "int \<Rightarrow> int \<Rightarrow> bool" where
  "rounds_to x y =
     (let q = bit_length x - 53; m = x div 2 ^ q;
          up = 2 ^ (q - 1);
          down = (if m = 2 ^ 52 then 2 ^ (q - 2) else 2 ^ (q - 1))
      in (x - down < y \<or> (x - down = y \<and> even m))
         \<and> (y < x + up \<or> (y = x + up \<and> even m)))"

definition strip_zeros :: "string \<Rightarrow> string" where
  "strip_zeros s = rev (dropWhile (\<lambda>c. c = CHR ''0'') (rev s))"

definition sci_text :: "int \<Rightarrow> string" where
  "sci_text y =
     (let ds = dec_of_int y; frac = strip_zeros (tl ds)
      in hd ds # (if frac = [] then [] else CHR ''.'' # frac) @ ''e+''
         @ dec_of_int (int (length ds) - 1))"

text \<open>
  The value with the fewest significant digits (tried in the order given) that reads back
  as \<open>x\<close>; of two such values the closer one.
\<close>

fun shortest :: "int \<Rightarrow> nat list \<Rightarrow> int" where
  "shortest x [] = x"
| "shortest x (k # ks) =
     (let scale = 10 ^ (length (dec_of_int x) - k);
          lo = (x div scale) * scale; hi = lo + scale;
          oklo = rounds_to x lo; okhi = rounds_to x hi
      in if oklo \<and> okhi
         then (if x - lo < hi - x then lo else if hi - x < x - lo then hi
               else if even (x div scale) then lo else hi)
         else if oklo then lo else if okhi then hi else shortest x ks)"

definition big_text :: "int \<Rightarrow> string" where
  "big_text n =
     (let x = js_double n
      in if 2 ^ 1024 \<le> x then ''Infinity''
         else (let y = shortest x [1, 2, 3, 4, 5, 6, 7, 8, 9, 10, 11, 12, 13, 14, 15, 16, 17]
               in if y < 10 ^ 21 then dec_of_int y else sci_text y))"

definition number_text :: "int \<Rightarrow> string" where
  "number_text i =
     (if - 9007199254740992 \<le> i \<and> i \<le> 9007199254740992 then show_int i
      else if i < 0 then CHR ''-'' # big_text (- i) else big_text i)"

text \<open>
  A query parameter as the driver sends it: SQL NULL or a text.  \<open>prepareValue\<close> is the
  driver's conversion of a JavaScript value: \<^verbatim>\<open>undefined\<close> and \<^verbatim>\<open>null\<close> become NULL, every
  other value its text.
\<close>

type_synonym param = "string option"

fun prepareValue :: "jv \<Rightarrow> param" where
  "prepareValue JUndefined = None"
| "prepareValue JNull = None"
| "prepareValue (JBool b) = Some (if b then ''true'' else ''false'')"
| "prepareValue (JNum n) = Some (number_text n)"
| "prepareValue (JStr s) = Some s"
| "prepareValue (JOther s) = Some s"

section \<open>The store: schema of \<^verbatim>\<open>db-setup.sql\<close>\<close>

record user_row =
  u_id :: string
  u_username :: string
  u_email :: "string option"
  u_password_hash :: "string option"
  u_created_at :: "string option"

record folder_row =
  f_id :: int
  f_user_id :: string
  f_name :: string
  f_timestamp :: "string option"

record thought_row =
  t_id :: int
  t_user_id :: string
  t_text :: string
  t_section :: string
  t_folder :: "int option"
  t_timestamp :: "string option"

text \<open>
  The tables in heap order and the two SERIAL sequences (last value handed out).  The
  table \<^verbatim>\<open>thought_updates\<close> is read and written by no statement of \<^verbatim>\<open>index.js\<close> and is
  left out.
\<close>

record database =
  users :: "user_row list"
  folders :: "folder_row list"
  thoughts :: "thought_row list"
  folders_id_seq :: int
  thoughts_id_seq :: int

definition empty_db :: database where
  "empty_db = \<lparr>users = [], folders = [], thoughts = [], folders_id_seq = 0, thoughts_id_seq = 0\<rparr>"

datatype pg_error =
  NotNullViolation
| UniqueViolation
| ForeignKeyViolation
| StringDataRightTruncation
| InvalidTextRepresentation
| NumericValueOutOfRange
| CharacterNotInRepertoire

subsection \<open>Input conversion of the column types\<close>

definition is_space :: "char \<Rightarrow> bool" where
  "is_space c = (c \<in> set [CHR '' '', CHR 0x09, CHR 0x0A, CHR 0x0B, CHR 0x0C, CHR 0x0D])"

definition digit_val :: "char \<Rightarrow> nat option" where
  "digit_val c = map_of (zip ''0123456789'' [0, 1, 2, 3, 4, 5, 6, 7, 8, 9]) c"

fun digits_val :: "nat \<Rightarrow> string \<Rightarrow> nat option" where
  "digits_val acc [] = Some acc"
| "digits_val acc (c # cs) =
     (case digit_val c of None \<Rightarrow> None | Some d \<Rightarrow> digits_val (10 * acc + d) cs)"

text \<open>
  The input function of INTEGER on a text parameter: white space around an optionally
  signed, non-empty run of decimal digits, within 32 bits.
\<close>

definition int4in :: "string \<Rightarrow> pg_error + int" where
  "int4in s =
     (let body = rev (dropWhile is_space (rev (dropWhile is_space s)));
          neg = (body \<noteq> [] \<and> hd body = CHR ''-'');
          ds = (if body \<noteq> [] \<and> (hd body = CHR ''-'' \<or> hd body = CHR ''+'') then tl body else body)
      in if ds = [] then Inl InvalidTextRepresentation
         else (case digits_val 0 ds of
                 None \<Rightarrow> Inl InvalidTextRepresentation
               | Some n \<Rightarrow>
                   (let i = (if neg then - int n else int n)
                    in if - 2147483648 \<le> i \<and> i \<le> 2147483647 then Inr i
                       else Inl NumericValueOutOfRange)))"

text \<open>An INTEGER parameter: NULL stays NULL, a text goes through \<open>int4in\<close>.\<close>

definition int4_param :: "param \<Rightarrow> pg_error + int option" where
  "int4_param p =
     (case p of None \<Rightarrow> Inr None
      | Some s \<Rightarrow> (case int4in s of Inl e \<Rightarrow> Inl e | Inr i \<Rightarrow> Inr (Some i)))"

text \<open>
  A text destined for a TEXT or VARCHAR column: the store refuses a text that contains
  the NUL character.
\<close>

definition text_in :: "string \<Rightarrow> pg_error + string" where
  "text_in s = (if CHR 0x00 \<in> set s then Inl CharacterNotInRepertoire else Inr s)"

definition text_param :: "param \<Rightarrow> pg_error + string option" where
  "text_param p =
     (case p of None \<Rightarrow> Inr None
      | Some s \<Rightarrow> (case text_in s of Inl e \<Rightarrow> Inl e | Inr s' \<Rightarrow> Inr (Some s')))"

text \<open>
  A text destined for a VARCHAR(n) column: NUL is refused in the same way, and a longer
  text is an error unless the excess is spaces only, which are cut off.
\<close>

definition varchar :: "nat \<Rightarrow> string \<Rightarrow> pg_error + string" where
  "varchar n s =
     (if CHR 0x00 \<in> set s then Inl CharacterNotInRepertoire
      else if length s \<le> n then Inr s
      else if list_all (\<lambda>c. c = CHR '' '') (drop n s) then Inr (take n s)
      else Inl StringDataRightTruncation)"

definition varchar_param :: "nat \<Rightarrow> param \<Rightarrow> pg_error + string option" where
  "varchar_param n p =
     (case p of None \<Rightarrow> Inr None
      | Some s \<Rightarrow> (case varchar n s of Inl e \<Rightarrow> Inl e | Inr s' \<Rightarrow> Inr (Some s')))"

subsection \<open>The statements issued by \<^verbatim>\<open>index.js\<close>\<close>

text \<open>
  One constructor for each SQL text of \<^verbatim>\<open>index.js\<close>, with its parameters in the order of
  the parameter array:
  \<^item> \<open>SqlSelectThoughts\<close>: \<^verbatim>\<open>SELECT * FROM thoughts WHERE user_id = $1\<close>
  \<^item> \<open>SqlSelectUser\<close>: \<^verbatim>\<open>SELECT * FROM users WHERE id = $1\<close>
  \<^item> \<open>SqlInsertUser\<close>: \<^verbatim>\<open>INSERT INTO users (id, username, email, password_hash, created_at) VALUES ($1, $2, $3, $4, $5)\<close>
  \<^item> \<open>SqlInsertThought\<close>: \<^verbatim>\<open>INSERT INTO thoughts (user_id, text, section, folder, timestamp) VALUES ($1, $2, $3, $4, $5) RETURNING *\<close>
  \<^item> \<open>SqlUpdateThought\<close>: \<^verbatim>\<open>UPDATE thoughts SET text = COALESCE($1, text), section = COALESCE($2, section), folder = COALESCE($3, folder) WHERE id = $4 AND user_id = $5 RETURNING *\<close>
  \<^item> \<open>SqlDeleteThought\<close>: \<^verbatim>\<open>DELETE FROM thoughts WHERE id = $1 AND user_id = $2 RETURNING *\<close>
  \<^item> \<open>SqlSelectFolders\<close>: \<^verbatim>\<open>SELECT * FROM folders WHERE user_id = $1\<close>
  \<^item> \<open>SqlInsertFolder\<close>: \<^verbatim>\<open>INSERT INTO folders (user_id, name, timestamp) VALUES ($1, $2, $3) RETURNING *\<close>
  \<^item> \<open>SqlUpdateFolder\<close>: \<^verbatim>\<open>UPDATE folders SET name = $1 WHERE id = $2 AND user_id = $3 RETURNING *\<close>
  \<^item> \<open>SqlDetachFolder\<close>: \<^verbatim>\<open>UPDATE thoughts SET folder = NULL WHERE folder = $1 AND user_id = $2\<close>
  \<^item> \<open>SqlDeleteFolder\<close>: \<^verbatim>\<open>DELETE FROM folders WHERE id = $1 AND user_id = $2 RETURNING *\<close>
\<close>

datatype stmt =
  SqlSelectThoughts param
| SqlSelectUser param
| SqlInsertUser param param param param param
| SqlInsertThought param param param param param
| SqlUpdateThought param param param param param
| SqlDeleteThought param param
| SqlSelectFolders param
| SqlInsertFolder param param param
| SqlUpdateFolder param param param
| SqlDetachFolder param param
| SqlDeleteFolder param param

text \<open>What a statement hands back: the rows it returns, or the number of rows it affected.\<close>

datatype result =
  UserRows "user_row list"
| FolderRows "folder_row list"
| ThoughtRows "thought_row list"
| Affected nat

fun user_rows :: "result \<Rightarrow> user_row list" where
  "user_rows (UserRows rs) = rs"
| "user_rows _ = []"

fun folder_rows :: "result \<Rightarrow> folder_row list" where
  "folder_rows (FolderRows rs) = rs"
| "folder_rows _ = []"

fun thought_rows :: "result \<Rightarrow> thought_row list" where
  "thought_rows (ThoughtRows rs) = rs"
| "thought_rows _ = []"

fun row_count :: "result \<Rightarrow> nat" where
  "row_count (UserRows rs) = length rs"
| "row_count (FolderRows rs) = length rs"
| "row_count (ThoughtRows rs) = length rs"
| "row_count (Affected n) = n"

definition bind_e :: "'e + 'a \<Rightarrow> ('a \<Rightarrow> 'e + 'b) \<Rightarrow> 'e + 'b" where
  "bind_e m f = (case m of Inl e \<Rightarrow> Inl e | Inr x \<Rightarrow> f x)"

definition not_null :: "'a option \<Rightarrow> pg_error + 'a" where
  "not_null v = (case v of None \<Rightarrow> Inl NotNullViolation | Some x \<Rightarrow> Inr x)"

definition require :: "bool \<Rightarrow> pg_error \<Rightarrow> pg_error + unit" where
  "require ok e = (if ok then Inr () else Inl e)"

text \<open>
  An UPDATE visits the table row by row: a row the WHERE clause selects is replaced by
  its new version, and the first constraint a new version breaks aborts the statement.
  The result is the new table and the rows of RETURNING.
\<close>

fun update_rows :: "('r \<Rightarrow> bool) \<Rightarrow> ('r \<Rightarrow> pg_error + 'r) \<Rightarrow> 'r list \<Rightarrow> pg_error + ('r list \<times> 'r list)" where
  "update_rows hit upd [] = Inr ([], [])"
| "update_rows hit upd (r # rs) =
     (if hit r
      then bind_e (upd r) (\<lambda>r'. bind_e (update_rows hit upd rs) (\<lambda>(tab, out). Inr (r' # tab, r' # out)))
      else bind_e (update_rows hit upd rs) (\<lambda>(tab, out). Inr (r # tab, out)))"

text \<open>
  In a WHERE clause the owner id is a parameter compared with the column.  It is the
  subject of a verified token, which is taken to hold no NUL character (the store would
  refuse one here as well).
\<close>

definition select_thoughts :: "param \<Rightarrow> database \<Rightarrow> thought_row list" where
  "select_thoughts puser db = filter (\<lambda>t. Some (t_user_id t) = puser) (thoughts db)"

definition select_user :: "param \<Rightarrow> database \<Rightarrow> user_row list" where
  "select_user pid db = filter (\<lambda>u. Some (u_id u) = pid) (users db)"

definition select_folders :: "param \<Rightarrow> database \<Rightarrow> folder_row list" where
  "select_folders puser db = filter (\<lambda>f. Some (f_user_id f) = puser) (folders db)"

text \<open>
  The parameters of a statement are converted to the types of their columns once, when
  the statement is bound and planned, before it runs: a parameter the store refuses fails
  the whole statement, whether or not a row would be selected, and before a sequence is
  touched.  The constraints on rows (NOT NULL, keys, references) are checked while the
  statement runs.
\<close>

text \<open>
  INSERT INTO users: the four VARCHAR(255) columns, NOT NULL on \<open>id\<close> (primary key) and
  \<open>username\<close>, and the primary key.
\<close>

definition insert_user :: "param \<Rightarrow> param \<Rightarrow> param \<Rightarrow> param \<Rightarrow> param \<Rightarrow> database \<Rightarrow> pg_error + database" where
  "insert_user pid pname pemail phash pcreated db =
     bind_e (varchar_param 255 pid) (\<lambda>vid.
     bind_e (varchar_param 255 pname) (\<lambda>vname.
     bind_e (varchar_param 255 pemail) (\<lambda>vemail.
     bind_e (varchar_param 255 phash) (\<lambda>vhash.
     bind_e (not_null vid) (\<lambda>i.
     bind_e (not_null vname) (\<lambda>n.
     bind_e (require (i \<notin> set (map u_id (users db))) UniqueViolation) (\<lambda>_.
       Inr (db\<lparr>users := users db @
          [\<lparr>u_id = i, u_username = n, u_email = vemail, u_password_hash = vhash,
            u_created_at = pcreated\<rparr>]\<rparr>))))))))"

text \<open>
  INSERT INTO thoughts: the parameters are VARCHAR(255) for \<open>user_id\<close>, TEXT for \<open>text\<close>,
  VARCHAR(50) for \<open>section\<close> and INTEGER for \<open>folder\<close>.  Then \<open>id\<close> takes the next value
  of the sequence, which stays consumed when the row is rejected afterwards, by NOT NULL
  on \<open>user_id\<close>, \<open>text\<close> and \<open>section\<close>, the primary key, or one of the two foreign keys.
\<close>

definition new_thought :: "int \<Rightarrow> string option \<Rightarrow> string option \<Rightarrow> string option \<Rightarrow> int option \<Rightarrow> param \<Rightarrow> database \<Rightarrow> pg_error + thought_row" where
  "new_thought new_id vuser vtext vsection vfolder pts db =
     bind_e (not_null vuser) (\<lambda>u.
     bind_e (not_null vtext) (\<lambda>t.
     bind_e (not_null vsection) (\<lambda>s.
     bind_e (require (new_id \<notin> set (map t_id (thoughts db))) UniqueViolation) (\<lambda>_.
     bind_e (require (u \<in> set (map u_id (users db))) ForeignKeyViolation) (\<lambda>_.
     bind_e (require (case vfolder of None \<Rightarrow> True | Some f \<Rightarrow> f \<in> set (map f_id (folders db)))
               ForeignKeyViolation) (\<lambda>_.
       Inr \<lparr>t_id = new_id, t_user_id = u, t_text = t, t_section = s, t_folder = vfolder,
            t_timestamp = pts\<rparr>))))))"

definition insert_thought :: "param \<Rightarrow> param \<Rightarrow> param \<Rightarrow> param \<Rightarrow> param \<Rightarrow> database \<Rightarrow> (pg_error + thought_row list) \<times> database" where
  "insert_thought puser ptext psection pfolder pts db =
     (case bind_e (varchar_param 255 puser) (\<lambda>vuser.
           bind_e (text_param ptext) (\<lambda>vtext.
           bind_e (varchar_param 50 psection) (\<lambda>vsection.
           bind_e (int4_param pfolder) (\<lambda>vfolder.
             Inr (vuser, vtext, vsection, vfolder))))) of
        Inl e \<Rightarrow> (Inl e, db)
      | Inr (vuser, vtext, vsection, vfolder) \<Rightarrow>
          (let new_id = thoughts_id_seq db + 1;
               db1 = db\<lparr>thoughts_id_seq := new_id\<rparr>
           in case new_thought new_id vuser vtext vsection vfolder pts db1 of
                Inl e \<Rightarrow> (Inl e, db1)
              | Inr row \<Rightarrow> (Inr [row], db1\<lparr>thoughts := thoughts db1 @ [row]\<rparr>)))"

text \<open>
  The coalescing UPDATE of thoughts: the parameters are TEXT for \<open>text\<close>, VARCHAR(50) for
  \<open>section\<close>, INTEGER for \<open>folder\<close> and \<open>id\<close>.  A selected row then takes each supplied
  value and keeps the rest, and a changed \<open>folder\<close> must exist in \<open>folders\<close>.
\<close>

definition coalesce :: "'a option \<Rightarrow> 'a \<Rightarrow> 'a" where
  "coalesce v old = (case v of None \<Rightarrow> old | Some x \<Rightarrow> x)"

definition thought_hit :: "int option \<Rightarrow> param \<Rightarrow> thought_row \<Rightarrow> bool" where
  "thought_hit vid puser t = (Some (t_id t) = vid \<and> Some (t_user_id t) = puser)"

definition coalesce_thought :: "string option \<Rightarrow> string option \<Rightarrow> int option \<Rightarrow> database \<Rightarrow> thought_row \<Rightarrow> pg_error + thought_row" where
  "coalesce_thought vtext vsection vfolder db t =
     bind_e (require (case vfolder of None \<Rightarrow> True
                      | Some f \<Rightarrow> t_folder t = Some f \<or> f \<in> set (map f_id (folders db)))
               ForeignKeyViolation) (\<lambda>_.
       Inr (t\<lparr>t_text := coalesce vtext (t_text t),
              t_section := coalesce vsection (t_section t),
              t_folder := (case vfolder of None \<Rightarrow> t_folder t | Some f \<Rightarrow> Some f)\<rparr>))"

definition update_thought :: "param \<Rightarrow> param \<Rightarrow> param \<Rightarrow> param \<Rightarrow> param \<Rightarrow> database \<Rightarrow> (pg_error + thought_row list) \<times> database" where
  "update_thought ptext psection pfolder pid puser db =
     (case bind_e (text_param ptext) (\<lambda>vtext.
           bind_e (varchar_param 50 psection) (\<lambda>vsection.
           bind_e (int4_param pfolder) (\<lambda>vfolder.
           bind_e (int4_param pid) (\<lambda>vid.
             update_rows (thought_hit vid puser) (coalesce_thought vtext vsection vfolder db)
               (thoughts db))))) of
        Inl e \<Rightarrow> (Inl e, db)
      | Inr (tab, out) \<Rightarrow> (Inr out, db\<lparr>thoughts := tab\<rparr>))"

definition delete_thought :: "param \<Rightarrow> param \<Rightarrow> database \<Rightarrow> (pg_error + thought_row list) \<times> database" where
  "delete_thought pid puser db =
     (case int4_param pid of
        Inl e \<Rightarrow> (Inl e, db)
      | Inr vid \<Rightarrow>
          (Inr (filter (thought_hit vid puser) (thoughts db)),
           db\<lparr>thoughts := filter (\<lambda>t. \<not> thought_hit vid puser t) (thoughts db)\<rparr>))"

text \<open>
  INSERT INTO folders: the parameters are VARCHAR(255) for \<open>user_id\<close> and \<open>name\<close>.  Then
  \<open>id\<close> takes the next value of the sequence, which stays consumed when the row is
  rejected afterwards, by NOT NULL on both, the primary key, UNIQUE(user_id, name), or the
  foreign key to \<open>users\<close>.
\<close>

definition new_folder :: "int \<Rightarrow> string option \<Rightarrow> string option \<Rightarrow> param \<Rightarrow> database \<Rightarrow> pg_error + folder_row" where
  "new_folder new_id vuser vname pts db =
     bind_e (not_null vuser) (\<lambda>u.
     bind_e (not_null vname) (\<lambda>n.
     bind_e (require (new_id \<notin> set (map f_id (folders db))) UniqueViolation) (\<lambda>_.
     bind_e (require ((u, n) \<notin> set (map (\<lambda>f. (f_user_id f, f_name f)) (folders db)))
               UniqueViolation) (\<lambda>_.
     bind_e (require (u \<in> set (map u_id (users db))) ForeignKeyViolation) (\<lambda>_.
       Inr \<lparr>f_id = new_id, f_user_id = u, f_name = n, f_timestamp = pts\<rparr>)))))"

definition insert_folder :: "param \<Rightarrow> param \<Rightarrow> param \<Rightarrow> database \<Rightarrow> (pg_error + folder_row list) \<times> database" where
  "insert_folder puser pname pts db =
     (case bind_e (varchar_param 255 puser) (\<lambda>vuser.
           bind_e (varchar_param 255 pname) (\<lambda>vname. Inr (vuser, vname))) of
        Inl e \<Rightarrow> (Inl e, db)
      | Inr (vuser, vname) \<Rightarrow>
          (let new_id = folders_id_seq db + 1;
               db1 = db\<lparr>folders_id_seq := new_id\<rparr>
           in case new_folder new_id vuser vname pts db1 of
                Inl e \<Rightarrow> (Inl e, db1)
              | Inr row \<Rightarrow> (Inr [row], db1\<lparr>folders := folders db1 @ [row]\<rparr>)))"

definition folder_hit :: "int option \<Rightarrow> param \<Rightarrow> folder_row \<Rightarrow> bool" where
  "folder_hit vid puser f = (Some (f_id f) = vid \<and> Some (f_user_id f) = puser)"

text \<open>
  UPDATE folders SET name: the parameters are VARCHAR(255) for \<open>name\<close> and INTEGER for
  \<open>id\<close>.  A selected row then takes the new name, under NOT NULL and
  UNIQUE(user_id, name) against the other rows.
\<close>

definition rename_folder :: "string option \<Rightarrow> database \<Rightarrow> folder_row \<Rightarrow> pg_error + folder_row" where
  "rename_folder vname db f =
     bind_e (not_null vname) (\<lambda>n.
     bind_e (require (\<not> list_ex (\<lambda>g. f_id g \<noteq> f_id f \<and> f_user_id g = f_user_id f \<and> f_name g = n)
                          (folders db)) UniqueViolation) (\<lambda>_.
       Inr (f\<lparr>f_name := n\<rparr>)))"

definition update_folder :: "param \<Rightarrow> param \<Rightarrow> param \<Rightarrow> database \<Rightarrow> (pg_error + folder_row list) \<times> database" where
  "update_folder pname pid puser db =
     (case bind_e (varchar_param 255 pname) (\<lambda>vname.
           bind_e (int4_param pid) (\<lambda>vid.
             update_rows (folder_hit vid puser) (rename_folder vname db) (folders db))) of
        Inl e \<Rightarrow> (Inl e, db)
      | Inr (tab, out) \<Rightarrow> (Inr out, db\<lparr>folders := tab\<rparr>))"

text \<open>UPDATE thoughts SET folder = NULL WHERE folder = $1 AND user_id = $2.\<close>

definition detach_hit :: "int option \<Rightarrow> param \<Rightarrow> thought_row \<Rightarrow> bool" where
  "detach_hit vid puser t = (vid \<noteq> None \<and> t_folder t = vid \<and> Some (t_user_id t) = puser)"

definition detach_folder :: "param \<Rightarrow> param \<Rightarrow> database \<Rightarrow> (pg_error + nat) \<times> database" where
  "detach_folder pid puser db =
     (case int4_param pid of
        Inl e \<Rightarrow> (Inl e, db)
      | Inr vid \<Rightarrow>
          (Inr (length (filter (detach_hit vid puser) (thoughts db))),
           db\<lparr>thoughts := map (\<lambda>t. if detach_hit vid puser t then t\<lparr>t_folder := None\<rparr> else t)
                              (thoughts db)\<rparr>))"

text \<open>
  DELETE FROM folders: the rows go, and the foreign key of \<open>thoughts.folder\<close>
  (ON DELETE SET NULL) clears the reference of every thought that pointed at one of them.
\<close>

definition delete_folder :: "param \<Rightarrow> param \<Rightarrow> database \<Rightarrow> (pg_error + folder_row list) \<times> database" where
  "delete_folder pid puser db =
     (case int4_param pid of
        Inl e \<Rightarrow> (Inl e, db)
      | Inr vid \<Rightarrow>
          (let gone = filter (folder_hit vid puser) (folders db)
           in (Inr gone,
               db\<lparr>folders := filter (\<lambda>f. \<not> folder_hit vid puser f) (folders db),
                  thoughts := map (\<lambda>t. if (case t_folder t of None \<Rightarrow> False
                                              | Some f \<Rightarrow> f \<in> set (map f_id gone))
                                        then t\<lparr>t_folder := None\<rparr> else t) (thoughts db)\<rparr>)))"

definition with_rows :: "('a \<Rightarrow> result) \<Rightarrow> (pg_error + 'a) \<times> database \<Rightarrow> (pg_error + result) \<times> database" where
  "with_rows mk r = (case r of (Inl e, db) \<Rightarrow> (Inl e, db) | (Inr x, db) \<Rightarrow> (Inr (mk x), db))"

text \<open>\<open>exec\<close> is \<^verbatim>\<open>pool.query\<close> on a statement: an error or a result, and the store afterwards.\<close>

fun exec :: "stmt \<Rightarrow> database \<Rightarrow> (pg_error + result) \<times> database" where
  "exec (SqlSelectThoughts p) db = (Inr (ThoughtRows (select_thoughts p db)), db)"
| "exec (SqlSelectUser p) db = (Inr (UserRows (select_user p db)), db)"
| "exec (SqlInsertUser p1 p2 p3 p4 p5) db =
     (case insert_user p1 p2 p3 p4 p5 db of
        Inl e \<Rightarrow> (Inl e, db)
      | Inr db' \<Rightarrow> (Inr (Affected 1), db'))"
| "exec (SqlInsertThought p1 p2 p3 p4 p5) db = with_rows ThoughtRows (insert_thought p1 p2 p3 p4 p5 db)"
| "exec (SqlUpdateThought p1 p2 p3 p4 p5) db = with_rows ThoughtRows (update_thought p1 p2 p3 p4 p5 db)"
| "exec (SqlDeleteThought p1 p2) db = with_rows ThoughtRows (delete_thought p1 p2 db)"
| "exec (SqlSelectFolders p) db = (Inr (FolderRows (select_folders p db)), db)"
| "exec (SqlInsertFolder p1 p2 p3) db = with_rows FolderRows (insert_folder p1 p2 p3 db)"
| "exec (SqlUpdateFolder p1 p2 p3) db = with_rows FolderRows (update_folder p1 p2 p3 db)"
| "exec (SqlDetachFolder p1 p2) db = with_rows Affected (detach_folder p1 p2 db)"
| "exec (SqlDeleteFolder p1 p2) db = with_rows FolderRows (delete_folder p1 p2 db)"

section \<open>The server: \<^verbatim>\<open>index.js\<close>\<close>

subsection \<open>Requests, responses and the outside world\<close>

text \<open>
  The four HTTP verbs under which \<^verbatim>\<open>index.js\<close> registers routes; requests with any other
  verb are not modelled.
\<close>

datatype http_method = GET | POST | PUT | DELETE

text \<open>
  The body after \<^verbatim>\<open>express.json()\<close>, by the fields the handlers destructure; a field
  the request does not carry is \<open>JUndefined\<close>.
\<close>

record json_body =
  b_id :: jv
  b_text :: jv
  b_section :: jv
  b_folder :: jv
  b_name :: jv

text \<open>
  A request as it leaves \<^verbatim>\<open>express.json()\<close>, the middleware registered ahead of every
  route.  The parser either refuses the request, and \<open>json_error\<close> is the status of its
  answer (400 for a body that is not JSON, 413 for one that is too large, 415 for an
  unsupported charset or encoding), or it lets the request pass with the parsed object in
  \<open>body\<close> (the empty object when the request carries no JSON).
\<close>

record request =
  req_method :: http_method
  req_path :: string
  authorization :: "string option"
  body :: json_body
  json_error :: "nat option"

text \<open>The decoded token \<^verbatim>\<open>req.user\<close>: \<^verbatim>\<open>uid\<close> and the optional \<^verbatim>\<open>email\<close>.\<close>

record decoded =
  uid :: string
  email :: "string option"

text \<open>
  What a request finds outside the program: the identity provider's
  \<^verbatim>\<open>verifyIdToken\<close> (\<open>None\<close> when it rejects the token) and the clock, \<open>clock k\<close> being the
  text of the \<open>k\<close>-th \<^verbatim>\<open>new Date().toISOString()\<close> of the request.
\<close>

record env =
  verifyIdToken :: "string \<Rightarrow> decoded option"
  clock :: "nat \<Rightarrow> string"

datatype payload =
  ErrorJson string
| ThoughtsJson "thought_row list"
| ThoughtJson "thought_row option"
| FoldersJson "folder_row list"
| FolderJson "folder_row option"
| DeletedJson
| NoRoute
| ParserError

type_synonym response = "nat \<times> payload"

text \<open>The calls a request makes to its two collaborators, in order.\<close>

datatype call = Verify string | Query stmt

type_synonym outcome = "response \<times> database \<times> call list"

definition is_query :: "call \<Rightarrow> bool" where
  "is_query c = (case c of Query q \<Rightarrow> True | Verify t \<Rightarrow> False)"

definition is_verify :: "call \<Rightarrow> bool" where
  "is_verify c = (case c of Verify t \<Rightarrow> True | Query q \<Rightarrow> False)"

definition first_row :: "'r list \<Rightarrow> 'r option" where
  "first_row rows = (case rows of [] \<Rightarrow> None | r # _ \<Rightarrow> Some r)"

definition internal_error :: response where
  "internal_error = (500, ErrorJson ''Internal Server Error'')"

definition unauthorized :: response where
  "unauthorized = (401, ErrorJson ''Unauthorized'')"

subsection \<open>String helpers of JavaScript\<close>

text \<open>\<^verbatim>\<open>String.prototype.split\<close> with a non-empty separator.\<close>

function js_split_from :: "string \<Rightarrow> string \<Rightarrow> string \<Rightarrow> string list" where
  "js_split_from sep acc [] = [acc]"
| "js_split_from sep acc (c # cs) =
     (if sep \<noteq> [] \<and> prefix sep (c # cs)
      then acc # js_split_from sep [] (drop (length sep) (c # cs))
      else js_split_from sep (acc @ [c]) cs)"
  by pat_completeness auto
termination
  by (relation "measure (\<lambda>(sep, acc, s). length s)") auto

definition js_split :: "string \<Rightarrow> string \<Rightarrow> string list" where
  "js_split sep s = js_split_from sep [] s"

subsection \<open>Authentication middleware\<close>

text \<open>
  \<open>bearer_token\<close> is \<^verbatim>\<open>authHeader.split('Bearer ')[1]\<close>; the second piece exists whenever
  the header starts with the separator.  In \<open>authenticateUser\<close>, \<open>Inl\<close> is the response
  that ends the request and \<open>Inr\<close> the decoded token handed to the route's handler.
\<close>

definition bearer_token :: "string \<Rightarrow> string" where
  "bearer_token authHeader =
     (case js_split ''Bearer '' authHeader of _ # t # _ \<Rightarrow> t | _ \<Rightarrow> [])"

definition authenticateUser :: "env \<Rightarrow> request \<Rightarrow> (response + decoded) \<times> call list" where
  "authenticateUser e req =
     (case authorization req of
        None \<Rightarrow> (Inl unauthorized, [])
      | Some authHeader \<Rightarrow>
          if authHeader = [] \<or> \<not> prefix ''Bearer '' authHeader then (Inl unauthorized, [])
          else (let idToken = bearer_token authHeader
                in case verifyIdToken e idToken of
                     None \<Rightarrow> (Inl unauthorized, [Verify idToken])
                   | Some decodedToken \<Rightarrow> (Inr decodedToken, [Verify idToken])))"

subsection \<open>Thought routes\<close>

definition get_thoughts :: "env \<Rightarrow> decoded \<Rightarrow> json_body \<Rightarrow> database \<Rightarrow> outcome" where
  "get_thoughts e user b db =
     (let userId = uid user;
          q = SqlSelectThoughts (Some userId)
      in case exec q db of
           (Inl err, db1) \<Rightarrow> (internal_error, db1, [Query q])
         | (Inr r, db1) \<Rightarrow> ((200, ThoughtsJson (thought_rows r)), db1, [Query q]))"

text \<open>The part of the POST handler under its comment \<^verbatim>\<open>// Create thought\<close>.\<close>

definition create_thought :: "env \<Rightarrow> decoded \<Rightarrow> json_body \<Rightarrow> database \<Rightarrow> call list \<Rightarrow> outcome" where
  "create_thought e user b db log =
     (let q = SqlInsertThought (Some (uid user)) (prepareValue (b_text b))
                (prepareValue (b_section b)) (prepareValue (or_null (b_folder b)))
                (Some (clock e 1))
      in case exec q db of
           (Inl err, db1) \<Rightarrow> (internal_error, db1, log @ [Query q])
         | (Inr r, db1) \<Rightarrow> ((201, ThoughtJson (first_row (thought_rows r))), db1, log @ [Query q]))"

definition post_thoughts :: "env \<Rightarrow> decoded \<Rightarrow> json_body \<Rightarrow> database \<Rightarrow> outcome" where
  "post_thoughts e user b db =
     (let userId = uid user;
          userEmail = (case email user of None \<Rightarrow> None
                       | Some m \<Rightarrow> if m = [] then None else Some m);
          userName = (case userEmail of None \<Rightarrow> ''anonymous''
                      | Some m \<Rightarrow> (case js_split ''@'' m of [] \<Rightarrow> [] | local # _ \<Rightarrow> local));
          createdAt = clock e 0;
          q1 = SqlSelectUser (Some userId);
          q2 = SqlInsertUser (Some userId) (Some userName) userEmail None (Some createdAt)
      in case exec q1 db of
           (Inl err, db1) \<Rightarrow> (internal_error, db1, [Query q1])
         | (Inr userCheck, db1) \<Rightarrow>
             if length (user_rows userCheck) = 0
             then (case exec q2 db1 of
                     (Inl err, db2) \<Rightarrow> (internal_error, db2, [Query q1, Query q2])
                   | (Inr r, db2) \<Rightarrow> create_thought e user b db2 [Query q1, Query q2])
             else create_thought e user b db1 [Query q1])"

definition put_thoughts :: "env \<Rightarrow> decoded \<Rightarrow> json_body \<Rightarrow> database \<Rightarrow> outcome" where
  "put_thoughts e user b db =
     (let userId = uid user
      in if \<not> truthy (b_id b) then ((400, ErrorJson ''Missing thought ID''), db, [])
         else (let q = SqlUpdateThought (prepareValue (b_text b)) (prepareValue (b_section b))
                         (prepareValue (b_folder b)) (prepareValue (b_id b)) (Some userId)
               in case exec q db of
                    (Inl err, db1) \<Rightarrow> (internal_error, db1, [Query q])
                  | (Inr r, db1) \<Rightarrow>
                      if length (thought_rows r) = 0
                      then ((404, ErrorJson ''Thought not found or unauthorized''), db1, [Query q])
                      else ((200, ThoughtJson (first_row (thought_rows r))), db1, [Query q])))"

definition delete_thoughts :: "env \<Rightarrow> decoded \<Rightarrow> json_body \<Rightarrow> database \<Rightarrow> outcome" where
  "delete_thoughts e user b db =
     (let userId = uid user
      in if \<not> truthy (b_id b) then ((400, ErrorJson ''Missing thought ID''), db, [])
         else (let q = SqlDeleteThought (prepareValue (b_id b)) (Some userId)
               in case exec q db of
                    (Inl err, db1) \<Rightarrow> (internal_error, db1, [Query q])
                  | (Inr r, db1) \<Rightarrow>
                      if length (thought_rows r) = 0
                      then ((404, ErrorJson ''Thought not found or unauthorized''), db1, [Query q])
                      else ((200, DeletedJson), db1, [Query q])))"

subsection \<open>Folder routes\<close>

definition get_folders :: "env \<Rightarrow> decoded \<Rightarrow> json_body \<Rightarrow> database \<Rightarrow> outcome" where
  "get_folders e user b db =
     (let userId = uid user;
          q = SqlSelectFolders (Some userId)
      in case exec q db of
           (Inl err, db1) \<Rightarrow> (internal_error, db1, [Query q])
         | (Inr r, db1) \<Rightarrow> ((200, FoldersJson (folder_rows r)), db1, [Query q]))"

definition post_folders :: "env \<Rightarrow> decoded \<Rightarrow> json_body \<Rightarrow> database \<Rightarrow> outcome" where
  "post_folders e user b db =
     (let userId = uid user
      in if \<not> truthy (b_name b) then ((400, ErrorJson ''Folder name is required''), db, [])
         else (let q = SqlInsertFolder (Some userId) (prepareValue (b_name b)) (Some (clock e 0))
               in case exec q db of
                    (Inl err, db1) \<Rightarrow> (internal_error, db1, [Query q])
                  | (Inr r, db1) \<Rightarrow>
                      ((201, FolderJson (first_row (folder_rows r))), db1, [Query q])))"

definition put_folders :: "env \<Rightarrow> decoded \<Rightarrow> json_body \<Rightarrow> database \<Rightarrow> outcome" where
  "put_folders e user b db =
     (let userId = uid user
      in if \<not> truthy (b_id b) \<or> \<not> truthy (b_name b)
         then ((400, ErrorJson ''Folder ID and name are required''), db, [])
         else (let q = SqlUpdateFolder (prepareValue (b_name b)) (prepareValue (b_id b)) (Some userId)
               in case exec q db of
                    (Inl err, db1) \<Rightarrow> (internal_error, db1, [Query q])
                  | (Inr r, db1) \<Rightarrow>
                      if length (folder_rows r) = 0
                      then ((404, ErrorJson ''Folder not found or unauthorized''), db1, [Query q])
                      else ((200, FolderJson (first_row (folder_rows r))), db1, [Query q])))"

definition delete_folders :: "env \<Rightarrow> decoded \<Rightarrow> json_body \<Rightarrow> database \<Rightarrow> outcome" where
  "delete_folders e user b db =
     (let userId = uid user
      in if \<not> truthy (b_id b) then ((400, ErrorJson ''Folder ID is required''), db, [])
         else (let q1 = SqlDetachFolder (prepareValue (b_id b)) (Some userId);
                   q2 = SqlDeleteFolder (prepareValue (b_id b)) (Some userId)
               in case exec q1 db of
                    (Inl err, db1) \<Rightarrow> (internal_error, db1, [Query q1])
                  | (Inr r1, db1) \<Rightarrow>
                      (case exec q2 db1 of
                         (Inl err, db2) \<Rightarrow> (internal_error, db2, [Query q1, Query q2])
                       | (Inr r, db2) \<Rightarrow>
                           if length (folder_rows r) = 0
                           then ((404, ErrorJson ''Folder not found or unauthorized''), db2,
                                 [Query q1, Query q2])
                           else ((200, DeletedJson), db2, [Query q1, Query q2]))))"

subsection \<open>Route registrations and dispatch\<close>

datatype operation =
  ThoughtList | ThoughtCreate | ThoughtUpdate | ThoughtDelete
| FolderList | FolderCreate | FolderUpdate | FolderDelete

text \<open>The registrations \<^verbatim>\<open>app.get\<close>, \<^verbatim>\<open>app.post\<close>, \<^verbatim>\<open>app.put\<close>, \<^verbatim>\<open>app.delete\<close> in source order.\<close>

definition routes :: "(http_method \<times> string \<times> operation) list" where
  "routes =
     [(GET, ''/api/thoughts'', ThoughtList),
      (POST, ''/api/thoughts'', ThoughtCreate),
      (PUT, ''/api/thoughts'', ThoughtUpdate),
      (DELETE, ''/api/thoughts'', ThoughtDelete),
      (GET, ''/api/folders'', FolderList),
      (POST, ''/api/folders'', FolderCreate),
      (PUT, ''/api/folders'', FolderUpdate),
      (DELETE, ''/api/folders'', FolderDelete)]"

fun handler :: "operation \<Rightarrow> env \<Rightarrow> decoded \<Rightarrow> json_body \<Rightarrow> database \<Rightarrow> outcome" where
  "handler ThoughtList = get_thoughts"
| "handler ThoughtCreate = post_thoughts"
| "handler ThoughtUpdate = put_thoughts"
| "handler ThoughtDelete = delete_thoughts"
| "handler FolderList = get_folders"
| "handler FolderCreate = post_folders"
| "handler FolderUpdate = put_folders"
| "handler FolderDelete = delete_folders"

text \<open>
  The framework's default matching of a registered route against the URL of a request:
  letter case is ignored and one trailing slash is allowed.
\<close>

definition lower_char :: "char \<Rightarrow> char" where
  "lower_char c =
     (case map_of (zip ''ABCDEFGHIJKLMNOPQRSTUVWXYZ'' ''abcdefghijklmnopqrstuvwxyz'') c of
        None \<Rightarrow> c | Some l \<Rightarrow> l)"

definition path_matches :: "string \<Rightarrow> string \<Rightarrow> bool" where
  "path_matches registered p =
     (map lower_char p = map lower_char registered
      \<or> map lower_char p = map lower_char registered @ ''/'')"

definition lookup_route :: "http_method \<Rightarrow> string \<Rightarrow> operation option" where
  "lookup_route m p =
     (case find (\<lambda>(m', registered, operation). m' = m \<and> path_matches registered p) routes of
        None \<Rightarrow> None
      | Some (m', registered, operation) \<Rightarrow> Some operation)"

text \<open>
  A request through the application, in the order of the registrations:
  \<^verbatim>\<open>app.use(express.json())\<close> first, whose refusal ends the request with the parser's
  status; then the routes: no registration matches and the framework answers 404;
  otherwise \<open>authenticateUser\<close> runs and the handler only after it let the request
  through.
\<close>

definition app :: "env \<Rightarrow> request \<Rightarrow> database \<Rightarrow> outcome" where
  "app e req db =
     (case json_error req of
        Some status \<Rightarrow> ((status, ParserError), db, [])
      | None \<Rightarrow>
          (case lookup_route (req_method req) (req_path req) of
             None \<Rightarrow> ((404, NoRoute), db, [])
           | Some operation \<Rightarrow>
               (case authenticateUser e req of
                  (Inl resp, log) \<Rightarrow> (resp, db, log)
                | (Inr user, log) \<Rightarrow>
                    (case handler operation e user (body req) db of
                       (resp, db', log') \<Rightarrow> (resp, db', log @ log')))))"

section \<open>A sample deployment\<close>

text \<open>
  Two identities, an identity provider that knows one token for each, and a fixed clock;
  used to run the handlers on concrete requests.
\<close>

definition alice :: decoded where
  "alice = \<lparr>uid = ''A'', email = Some ''alice@example.com''\<rparr>"

definition bob :: decoded where
  "bob = \<lparr>uid = ''B'', email = None\<rparr>"

definition sample_env :: env where
  "sample_env =
     \<lparr>verifyIdToken = (\<lambda>t. if t = ''tokA'' then Some alice
                              else if t = ''tokB'' then Some bob else None),
      clock = (\<lambda>k. ''2024-01-01T00:00:00.000Z'')\<rparr>"

definition no_body :: json_body where
  "no_body = \<lparr>b_id = JUndefined, b_text = JUndefined, b_section = JUndefined,
               b_folder = JUndefined, b_name = JUndefined\<rparr>"

definition out_db :: "outcome \<Rightarrow> database" where
  "out_db out = fst (snd out)"

definition out_log :: "outcome \<Rightarrow> call list" where
  "out_log out = snd (snd out)"

text \<open>
  The store after these three requests on the empty store: A creates a thought, A creates
  the folder \<open>work\<close> (id 1), B creates a thought filed under folder 1.
\<close>

definition shared_db :: database where
  "shared_db =
     \<lparr>users =
        [\<lparr>u_id = ''A'', u_username = ''alice'', u_email = Some ''alice@example.com'',
          u_password_hash = None, u_created_at = Some ''2024-01-01T00:00:00.000Z''\<rparr>,
         \<lparr>u_id = ''B'', u_username = ''anonymous'', u_email = None,
          u_password_hash = None, u_created_at = Some ''2024-01-01T00:00:00.000Z''\<rparr>],
      folders =
        [\<lparr>f_id = 1, f_user_id = ''A'', f_name = ''work'',
          f_timestamp = Some ''2024-01-01T00:00:00.000Z''\<rparr>],
      thoughts =
        [\<lparr>t_id = 1, t_user_id = ''A'', t_text = ''buy milk'', t_section = ''todo'',
          t_folder = None, t_timestamp = Some ''2024-01-01T00:00:00.000Z''\<rparr>,
         \<lparr>t_id = 2, t_user_id = ''B'', t_text = ''read'', t_section = ''todo'',
          t_folder = Some 1, t_timestamp = Some ''2024-01-01T00:00:00.000Z''\<rparr>],
      folders_id_seq = 1,
      thoughts_id_seq = 2\<rparr>"

text \<open>
  The store after the first two of these requests: A has a user row, a thought and the
  folder \<open>work\<close>; B has not sent a request yet.
\<close>

definition single_owner_db :: database where
  "single_owner_db =
     \<lparr>users =
        [\<lparr>u_id = ''A'', u_username = ''alice'', u_email = Some ''alice@example.com'',
          u_password_hash = None, u_created_at = Some ''2024-01-01T00:00:00.000Z''\<rparr>],
      folders =
        [\<lparr>f_id = 1, f_user_id = ''A'', f_name = ''work'',
          f_timestamp = Some ''2024-01-01T00:00:00.000Z''\<rparr>],
      thoughts =
        [\<lparr>t_id = 1, t_user_id = ''A'', t_text = ''buy milk'', t_section = ''todo'',
          t_folder = None, t_timestamp = Some ''2024-01-01T00:00:00.000Z''\<rparr>],
      folders_id_seq = 1,
      thoughts_id_seq = 1\<rparr>"

section \<open>Vocabulary of the specification\<close>

text \<open>
  A body field is supplied when the driver sends a value for it, that is when it is
  neither absent nor \<^verbatim>\<open>null\<close>.
\<close>

definition supplied :: "jv \<Rightarrow> bool" where
  "supplied v = (prepareValue v \<noteq> None)"

text \<open>
  The \<open>id\<close> field of a body names the resource \<open>i\<close>: it passes the handler's own
  \<^verbatim>\<open>!id\<close> test and the store reads it as the integer \<open>i\<close>.
\<close>

definition names_id :: "jv \<Rightarrow> int \<Rightarrow> bool" where
  "names_id v i = (truthy v \<and> int4_param (prepareValue v) = Inr (Some i))"

text \<open>
  Coalesce semantics in the words of the specification: \<open>t'\<close> is \<open>t\<close> with each of
  text, section and folder replaced if the body supplies it and kept otherwise; nothing
  else changes.  A supplied value is stored as its column stores it.
\<close>

definition coalesced :: "json_body \<Rightarrow> thought_row \<Rightarrow> thought_row \<Rightarrow> bool" where
  "coalesced b t t' =
     (t_id t' = t_id t \<and> t_user_id t' = t_user_id t \<and> t_timestamp t' = t_timestamp t
      \<and> (case prepareValue (b_text b) of
            None \<Rightarrow> t_text t' = t_text t
          | Some x \<Rightarrow> t_text t' = x)
      \<and> (case prepareValue (b_section b) of
            None \<Rightarrow> t_section t' = t_section t
          | Some x \<Rightarrow> varchar 50 x = Inr (t_section t'))
      \<and> (case prepareValue (b_folder b) of
            None \<Rightarrow> t_folder t' = t_folder t
          | Some x \<Rightarrow> (case int4in x of Inl err \<Rightarrow> False | Inr i \<Rightarrow> t_folder t' = Some i)))"

text \<open>
  The user row the specification has thought creation provision: the verified id, the
  local part of the email (the text before the first \<^verbatim>\<open>@\<close>) as username, or
  \<^verbatim>\<open>anonymous\<close> when no email is present, the email, no password hash, and the time of
  the request.
\<close>

definition local_part :: "string \<Rightarrow> string" where
  "local_part m = takeWhile (\<lambda>c. c \<noteq> CHR ''@'') m"

definition present_email :: "decoded \<Rightarrow> string option" where
  "present_email user = (case email user of None \<Rightarrow> None | Some m \<Rightarrow> if m = [] then None else Some m)"

definition provisioned_user :: "env \<Rightarrow> decoded \<Rightarrow> user_row" where
  "provisioned_user e user =
     \<lparr>u_id = uid user,
      u_username = (case present_email user of None \<Rightarrow> ''anonymous'' | Some m \<Rightarrow> local_part m),
      u_email = present_email user,
      u_password_hash = None,
      u_created_at = Some (clock e 0)\<rparr>"

text \<open>The three statements of thought creation, with the parameters the handler passes.\<close>

definition user_check_stmt :: "decoded \<Rightarrow> stmt" where
  "user_check_stmt user = SqlSelectUser (Some (uid user))"

definition user_insert_stmt :: "env \<Rightarrow> decoded \<Rightarrow> stmt" where
  "user_insert_stmt e user =
     SqlInsertUser (Some (uid user)) (Some (u_username (provisioned_user e user)))
       (u_email (provisioned_user e user)) None (Some (clock e 0))"

definition thought_insert_stmt :: "env \<Rightarrow> decoded \<Rightarrow> json_body \<Rightarrow> stmt" where
  "thought_insert_stmt e user b =
     SqlInsertThought (Some (uid user)) (prepareValue (b_text b)) (prepareValue (b_section b))
       (prepareValue (or_null (b_folder b))) (Some (clock e 1))"




text \<open>A text the store accepts in a VARCHAR(n) column as it is.\<close>

definition fits :: "nat \<Rightarrow> string \<Rightarrow> bool" where
  "fits n s = (CHR 0x00 \<notin> set s \<and> length s \<le> n)"

text \<open>
  The identity and its email fit the VARCHAR(255) columns of \<open>users\<close>, as those of a
  verified token do: its subject has at most 128 characters, and an email address at most
  254.
\<close>

definition fits_users :: "decoded \<Rightarrow> bool" where
  "fits_users user =
     (fits 255 (uid user)
      \<and> (case email user of None \<Rightarrow> True | Some m \<Rightarrow> fits 255 m))"

text \<open>
  A thought that has no folder in \<open>db'\<close> had none in \<open>db\<close> either, or is not a thought of
  \<open>db\<close>: the step from \<open>db\<close> to \<open>db'\<close> detached no thought from its folder.
\<close>

definition no_detach :: "database \<Rightarrow> database \<Rightarrow> bool" where
  "no_detach db db' =
     list_all (\<lambda>t'. t_folder t' = None \<longrightarrow>
                 list_ex (\<lambda>t. t_id t = t_id t' \<and> t_folder t = None) (thoughts db)
                 \<or> t_id t' \<notin> set (map t_id (thoughts db)))
       (thoughts db')"

text \<open>
  The invariant of the specification's data model: the folder reference of a thought, if
  present, points to a folder owned by the owner of the thought.
\<close>

definition folder_refs_owned :: "database \<Rightarrow> bool" where
  "folder_refs_owned db =
     list_all (\<lambda>t. case t_folder t of
                      None \<Rightarrow> True
                    | Some f \<Rightarrow> list_ex (\<lambda>g. f_id g = f \<and> f_user_id g = t_user_id t) (folders db))
       (thoughts db)"

text \<open>
  A store in which that invariant holds: A's thought is filed under A's folder \<open>work\<close>;
  B has a user row and no thought left.
\<close>

definition filed_db :: database where
  "filed_db =
     \<lparr>users =
        [\<lparr>u_id = ''A'', u_username = ''alice'', u_email = Some ''alice@example.com'',
          u_password_hash = None, u_created_at = Some ''2024-01-01T00:00:00.000Z''\<rparr>,
         \<lparr>u_id = ''B'', u_username = ''anonymous'', u_email = None,
          u_password_hash = None, u_created_at = Some ''2024-01-01T00:00:00.000Z''\<rparr>],
      folders =
        [\<lparr>f_id = 1, f_user_id = ''A'', f_name = ''work'',
          f_timestamp = Some ''2024-01-01T00:00:00.000Z''\<rparr>],
      thoughts =
        [\<lparr>t_id = 1, t_user_id = ''A'', t_text = ''buy milk'', t_section = ''todo'',
          t_folder = Some 1, t_timestamp = Some ''2024-01-01T00:00:00.000Z''\<rparr>],
      folders_id_seq = 1,
      thoughts_id_seq = 2\<rparr>"

text \<open>The two statements of folder deletion, with the parameters the handler passes.\<close>

definition detach_stmt :: "decoded \<Rightarrow> json_body \<Rightarrow> stmt" where
  "detach_stmt user b = SqlDetachFolder (prepareValue (b_id b)) (Some (uid user))"

definition folder_delete_stmt :: "decoded \<Rightarrow> json_body \<Rightarrow> stmt" where
  "folder_delete_stmt user b = SqlDeleteFolder (prepareValue (b_id b)) (Some (uid user))"

section \<open>Properties\<close>

subsection \<open>Decimal text and the INTEGER input function\<close>

lemma digit_val_digit_char: "d < 10 \<Longrightarrow> digit_val (digit_char d) = Some d"
proof -
  assume "d < 10"
  then have "d \<in> {0, 1, 2, 3, 4, 5, 6, 7, 8, 9}" by auto
  then show ?thesis by (auto simp: digit_val_def digit_char_def)
qed

lemma digit_char_plain:
  "d < 10 \<Longrightarrow> \<not> is_space (digit_char d) \<and> digit_char d \<noteq> CHR ''-'' \<and> digit_char d \<noteq> CHR ''+''"
proof -
  assume "d < 10"
  then have "d \<in> {0, 1, 2, 3, 4, 5, 6, 7, 8, 9}" by auto
  then show ?thesis by (auto simp: is_space_def digit_char_def)
qed

lemma digits_val_append:
  "digits_val acc (xs @ ys) = (case digits_val acc xs of None \<Rightarrow> None | Some a \<Rightarrow> digits_val a ys)"
  by (induction xs arbitrary: acc) (auto split: option.splits)

lemma digits_val_dec_of_nat: "digits_val 0 (dec_of_nat n) = Some n"
proof (induction n rule: dec_of_nat.induct)
  case (1 n)
  show ?case
  proof (cases "n < 10")
    case True
    then show ?thesis by (subst dec_of_nat.simps) (simp add: digit_val_digit_char)
  next
    case False
    with 1 have "digits_val 0 (dec_of_nat (n div 10)) = Some (n div 10)" by simp
    with False show ?thesis
      by (subst dec_of_nat.simps) (simp add: digits_val_append digit_val_digit_char)
  qed
qed

lemma dec_of_nat_nonempty: "dec_of_nat n \<noteq> []"
  by (subst dec_of_nat.simps) simp

lemma last_dec_of_nat: "last (dec_of_nat n) = digit_char (n mod 10)"
  by (subst dec_of_nat.simps) simp

lemma hd_dec_of_nat: "\<exists>d<10. hd (dec_of_nat n) = digit_char d"
proof (induction n rule: dec_of_nat.induct)
  case (1 n)
  show ?case
  proof (cases "n < 10")
    case True
    then show ?thesis by (subst dec_of_nat.simps) auto
  next
    case False
    with 1 obtain d where "d < 10" "hd (dec_of_nat (n div 10)) = digit_char d" by auto
    with False show ?thesis
      by (subst dec_of_nat.simps) (auto simp: dec_of_nat_nonempty)
  qed
qed

lemma dropWhile_keeps: "xs \<noteq> [] \<Longrightarrow> \<not> P (hd xs) \<Longrightarrow> dropWhile P xs = xs"
  by (cases xs) auto

lemma trim_keeps:
  assumes "xs \<noteq> []" "\<not> is_space (hd xs)" "\<not> is_space (last xs)"
  shows "rev (dropWhile is_space (rev (dropWhile is_space xs))) = xs"
proof -
  have front: "dropWhile is_space xs = xs"
    using assms by (simp add: dropWhile_keeps)
  have "dropWhile is_space (rev xs) = rev xs"
    using assms by (intro dropWhile_keeps) (auto simp: hd_rev)
  with front show ?thesis by simp
qed

text \<open>A 32-bit integer sent as a JSON number reaches an INTEGER parameter unchanged.\<close>

lemma int4in_show_int:
  assumes "- 2147483648 \<le> i" "i \<le> 2147483647"
  shows "int4in (show_int i) = Inr i"
proof (cases "i < 0")
  case False
  let ?s = "dec_of_nat (nat i)"
  obtain d where d: "d < 10" "hd ?s = digit_char d"
    using hd_dec_of_nat by blast
  have l: "\<not> is_space (last ?s)"
    by (simp add: last_dec_of_nat digit_char_plain)
  have h: "\<not> is_space (hd ?s)" "hd ?s \<noteq> CHR ''-''" "hd ?s \<noteq> CHR ''+''"
    using d digit_char_plain by auto
  have t: "rev (dropWhile is_space (rev (dropWhile is_space ?s))) = ?s"
    using trim_keeps [OF dec_of_nat_nonempty h(1) l] .
  show ?thesis
    using False assms h
    by (simp add: int4in_def show_int_def t dec_of_nat_nonempty digits_val_dec_of_nat)
next
  case True
  let ?s = "CHR ''-'' # dec_of_nat (nat (- i))"
  have l: "\<not> is_space (last ?s)"
    by (simp add: last_dec_of_nat digit_char_plain dec_of_nat_nonempty)
  have h: "\<not> is_space (hd ?s)"
    by (simp add: is_space_def)
  have t: "rev (dropWhile is_space (rev (dropWhile is_space ?s))) = ?s"
    by (rule trim_keeps [OF _ h l]) simp
  show ?thesis
    using True assms
    by (simp add: int4in_def show_int_def t dec_of_nat_nonempty digits_val_dec_of_nat
          del: rev.simps dropWhile.simps)
qed

lemma number_text_small:
  "- 9007199254740992 \<le> i \<Longrightarrow> i \<le> 9007199254740992 \<Longrightarrow> number_text i = show_int i"
  by (simp add: number_text_def)

lemma int4_param_JNum:
  "- 2147483648 \<le> i \<Longrightarrow> i \<le> 2147483647 \<Longrightarrow> int4_param (prepareValue (JNum i)) = Inr (Some i)"
  by (simp add: int4_param_def int4in_show_int number_text_small)

lemma int4_param_one: "int4_param (Some ''1'') = Inr (Some 1)"
  using int4_param_JNum [of 1]
  by (simp add: number_text_small show_int_def dec_of_nat.simps digit_char_def)

lemma int4_param_absent [simp]: "int4_param None = Inr None"
  by (simp add: int4_param_def)

subsection \<open>Row-wise updates\<close>

lemma update_rows_Cons_hit:
  "hit r \<Longrightarrow> update_rows hit upd (r # rs) = Inr (tab, out) \<Longrightarrow>
   \<exists>r' tab' out'. upd r = Inr r' \<and> update_rows hit upd rs = Inr (tab', out')
      \<and> tab = r' # tab' \<and> out = r' # out'"
  by (auto simp: bind_e_def split: sum.splits prod.splits)

lemma update_rows_Cons_miss:
  "\<not> hit r \<Longrightarrow> update_rows hit upd (r # rs) = Inr (tab, out) \<Longrightarrow>
   \<exists>tab'. update_rows hit upd rs = Inr (tab', out) \<and> tab = r # tab'"
  by (auto simp: bind_e_def split: sum.splits prod.splits)

lemma update_rows_table:
  "update_rows hit upd rs = Inr (tab, out) \<Longrightarrow>
   list_all2 (\<lambda>r r'. (hit r \<longrightarrow> upd r = Inr r') \<and> (\<not> hit r \<longrightarrow> r' = r)) rs tab"
proof (induction rs arbitrary: tab out)
  case Nil
  then show ?case by simp
next
  case (Cons r rs)
  show ?case
  proof (cases "hit r")
    case True
    from update_rows_Cons_hit [OF True Cons.prems] obtain r' tab' out'
      where "upd r = Inr r'" "update_rows hit upd rs = Inr (tab', out')" "tab = r' # tab'"
      by blast
    with True Cons.IH show ?thesis by simp
  next
    case False
    from update_rows_Cons_miss [OF False Cons.prems] obtain tab'
      where "update_rows hit upd rs = Inr (tab', out)" "tab = r # tab'"
      by blast
    with False Cons.IH show ?thesis by simp
  qed
qed

lemma update_rows_returning:
  "update_rows hit upd rs = Inr (tab, out) \<Longrightarrow>
   list_all2 (\<lambda>r r'. upd r = Inr r') (filter hit rs) out"
proof (induction rs arbitrary: tab out)
  case Nil
  then show ?case by simp
next
  case (Cons r rs)
  show ?case
  proof (cases "hit r")
    case True
    from update_rows_Cons_hit [OF True Cons.prems] obtain r' tab' out'
      where "upd r = Inr r'" "update_rows hit upd rs = Inr (tab', out')" "out = r' # out'"
      by blast
    with True Cons.IH show ?thesis by simp
  next
    case False
    from update_rows_Cons_miss [OF False Cons.prems] obtain tab'
      where "update_rows hit upd rs = Inr (tab', out)"
      by blast
    with False Cons.IH show ?thesis by simp
  qed
qed

lemma update_rows_ok:
  "\<forall>r \<in> set rs. hit r \<longrightarrow> upd r = Inr (g r) \<Longrightarrow>
   update_rows hit upd rs = Inr (map (\<lambda>r. if hit r then g r else r) rs, map g (filter hit rs))"
  by (induction rs) (auto simp: bind_e_def)


lemma update_rows_out_empty:
  "update_rows hit upd rs = Inr (tab, []) \<Longrightarrow> tab = rs \<and> (\<forall>r \<in> set rs. \<not> hit r)"
  by (induction rs arbitrary: tab) (auto simp: bind_e_def split: if_splits sum.splits prod.splits)

subsection \<open>Routing\<close>

lemma bearer_token_tokA: "bearer_token ''Bearer tokA'' = ''tokA''"
  by (simp add: bearer_token_def js_split_def)

lemma bearer_token_tokB: "bearer_token ''Bearer tokB'' = ''tokB''"
  by (simp add: bearer_token_def js_split_def)

lemma lookup_api_thoughts:
  "lookup_route m ''/api/thoughts'' =
     Some (case m of GET \<Rightarrow> ThoughtList | POST \<Rightarrow> ThoughtCreate
           | PUT \<Rightarrow> ThoughtUpdate | DELETE \<Rightarrow> ThoughtDelete)"
  by (cases m) (simp_all add: lookup_route_def routes_def path_matches_def lower_char_def)

lemma lookup_api_folders:
  "lookup_route m ''/api/folders'' =
     Some (case m of GET \<Rightarrow> FolderList | POST \<Rightarrow> FolderCreate
           | PUT \<Rightarrow> FolderUpdate | DELETE \<Rightarrow> FolderDelete)"
  by (cases m) (simp_all add: lookup_route_def routes_def path_matches_def lower_char_def)

text \<open>
  C8, as stated: the four thought operations are served at the route \<^verbatim>\<open>/thoughts\<close> and the
  four folder operations at \<^verbatim>\<open>/folders\<close>.  No registration matches either of them, whatever the
  HTTP verb: the application answers them with the framework's 404 and calls nobody.
\<close>

theorem no_route_at_unprefixed_paths:
  "lookup_route GET ''/thoughts'' = None
   \<and> lookup_route POST ''/thoughts'' = None
   \<and> lookup_route PUT ''/thoughts'' = None
   \<and> lookup_route DELETE ''/thoughts'' = None
   \<and> lookup_route GET ''/folders'' = None
   \<and> lookup_route POST ''/folders'' = None
   \<and> lookup_route PUT ''/folders'' = None
   \<and> lookup_route DELETE ''/folders'' = None
   \<and> app sample_env
        \<lparr>req_method = GET, req_path = ''/thoughts'', authorization = Some ''Bearer tokA'', body = no_body, json_error = None\<rparr>
        shared_db = ((404, NoRoute), shared_db, [])"
  by (simp add: app_def lookup_route_def routes_def path_matches_def lower_char_def)

text \<open>
  C8, amended: the eight operations are registered, with the methods of the interface
  table, at \<^verbatim>\<open>/api/thoughts\<close> and \<^verbatim>\<open>/api/folders\<close>, and these are all the registrations.
\<close>

theorem routes_under_api_prefix:
  "lookup_route GET ''/api/thoughts'' = Some ThoughtList
   \<and> lookup_route POST ''/api/thoughts'' = Some ThoughtCreate
   \<and> lookup_route PUT ''/api/thoughts'' = Some ThoughtUpdate
   \<and> lookup_route DELETE ''/api/thoughts'' = Some ThoughtDelete
   \<and> lookup_route GET ''/api/folders'' = Some FolderList
   \<and> lookup_route POST ''/api/folders'' = Some FolderCreate
   \<and> lookup_route PUT ''/api/folders'' = Some FolderUpdate
   \<and> lookup_route DELETE ''/api/folders'' = Some FolderDelete
   \<and> set (map (\<lambda>(m, p, operation). p) routes) = {''/api/thoughts'', ''/api/folders''}
   \<and> length routes = 8"
  by (simp add: lookup_api_thoughts lookup_api_folders) (auto simp: routes_def)

subsection \<open>The authorization gate\<close>

text \<open>
  C1, as stated: every request to one of the eight routes whose authorization header is
  absent is answered 401.  The JSON body parser is registered ahead of the routes: a
  request without a header whose body is not JSON is answered by the parser, with its
  400, and \<open>authenticateUser\<close> does not run.
\<close>

theorem unparsable_body_answered_before_the_gate:
  "lookup_route DELETE ''/api/folders'' = Some FolderDelete
   \<and> authorization \<lparr>req_method = DELETE, req_path = ''/api/folders'', authorization = None,
         body = no_body, json_error = Some 400\<rparr> = None
   \<and> app sample_env
        \<lparr>req_method = DELETE, req_path = ''/api/folders'', authorization = None,
         body = no_body, json_error = Some 400\<rparr> shared_db
       = ((400, ParserError), shared_db, [])
   \<and> fst (app sample_env
        \<lparr>req_method = DELETE, req_path = ''/api/folders'', authorization = None,
         body = no_body, json_error = Some 400\<rparr> shared_db) \<noteq> unauthorized"
  by (simp add: app_def lookup_api_folders unauthorized_def)

text \<open>
  C1, amended: a request to any registered route whose authorization header is absent,
  does not start with \<^verbatim>\<open>Bearer \<close>, or carries a token the verifier rejects is answered 401
  Unauthorized when the body parser lets it pass, and with the parser's own status when
  the parser refuses it.  Either way it leaves the store as it was and issues no
  statement; without the prefix, or when the parser refuses, the verifier is not called
  either (the request calls nobody).
\<close>

theorem unauthenticated_request_rejected:
  assumes "lookup_route (req_method req) (req_path req) = Some operation"
      and "authorization req = None
           \<or> (\<exists>h. authorization req = Some h
                 \<and> (\<not> prefix ''Bearer '' h \<or> verifyIdToken e (bearer_token h) = None))"
  shows "(json_error req = None \<longrightarrow> fst (app e req db) = unauthorized)
       \<and> (\<forall>status. json_error req = Some status \<longrightarrow>
             app e req db = ((status, ParserError), db, []))
       \<and> out_db (app e req db) = db
       \<and> \<not> list_ex is_query (out_log (app e req db))
       \<and> (authorization req = None \<or> (\<exists>h. authorization req = Some h \<and> \<not> prefix ''Bearer '' h)
            \<longrightarrow> out_log (app e req db) = [])"
proof (cases "json_error req")
  case (Some status)
  then show ?thesis
    by (simp add: app_def out_db_def out_log_def)
next
  case None
  with assms show ?thesis
    by (auto simp: app_def authenticateUser_def out_db_def out_log_def is_query_def
             split: option.splits)
qed

theorem unauthenticated_request_rejected_witness:
  "lookup_route DELETE ''/api/folders'' = Some FolderDelete
   \<and> \<not> prefix ''Bearer '' ''Basic dXNlcjpwdw==''
   \<and> fst (app sample_env
        \<lparr>req_method = DELETE, req_path = ''/api/folders'', authorization = Some ''Basic dXNlcjpwdw=='',
         body = no_body\<lparr>b_id := JNum 1\<rparr>, json_error = None\<rparr> shared_db) = unauthorized
   \<and> out_db (app sample_env
        \<lparr>req_method = DELETE, req_path = ''/api/folders'', authorization = Some ''Basic dXNlcjpwdw=='',
         body = no_body\<lparr>b_id := JNum 1\<rparr>, json_error = None\<rparr> shared_db) = shared_db
   \<and> out_log (app sample_env
        \<lparr>req_method = DELETE, req_path = ''/api/folders'', authorization = Some ''Basic dXNlcjpwdw=='',
         body = no_body\<lparr>b_id := JNum 1\<rparr>, json_error = None\<rparr> shared_db) = []"
proof -
  let ?req = "\<lparr>req_method = DELETE, req_path = ''/api/folders'',
               authorization = Some ''Basic dXNlcjpwdw=='', body = no_body\<lparr>b_id := JNum 1\<rparr>, json_error = None\<rparr>"
  have r: "lookup_route (req_method ?req) (req_path ?req) = Some FolderDelete"
    by (simp add: lookup_api_folders)
  have p: "\<not> prefix ''Bearer '' ''Basic dXNlcjpwdw==''"
    by simp
  then have h: "authorization ?req = None
           \<or> (\<exists>h. authorization ?req = Some h
                 \<and> (\<not> prefix ''Bearer '' h \<or> verifyIdToken sample_env (bearer_token h) = None))"
    by simp
  from unauthenticated_request_rejected [OF r h, of shared_db] r p show ?thesis
    by simp
qed

subsection \<open>Updating and deleting a thought\<close>

lemma coalesce_thought_fields:
  "coalesce_thought vt vs vf db t = Inr t' \<Longrightarrow>
     t_id t' = t_id t \<and> t_user_id t' = t_user_id t \<and> t_timestamp t' = t_timestamp t
     \<and> t_text t' = coalesce vt (t_text t)
     \<and> t_section t' = coalesce vs (t_section t)
     \<and> t_folder t' = (case vf of None \<Rightarrow> t_folder t | Some f \<Rightarrow> Some f)"
  by (auto simp: coalesce_thought_def bind_e_def require_def split: sum.splits option.splits if_splits)

lemma text_param_Some: "text_param (Some x) = Inr v \<Longrightarrow> v = Some x"
  by (auto simp: text_param_def text_in_def split: if_splits)

lemma text_param_None [simp]: "text_param None = Inr None"
  by (simp add: text_param_def)

lemma varchar_param_None [simp]: "varchar_param n None = Inr None"
  by (simp add: varchar_param_def)

lemma varchar_param_Some:
  "varchar_param n (Some x) = Inr v \<Longrightarrow> \<exists>y. v = Some y \<and> varchar n x = Inr y"
  by (auto simp: varchar_param_def split: sum.splits)

lemma update_thought_error:
  "update_thought pt ps pf pid pu db = (Inl err, db') \<Longrightarrow> db' = db"
  by (auto simp: update_thought_def split: sum.splits prod.splits)

lemma update_thought_ok:
  "update_thought pt ps pf pid pu db = (Inr out, db') \<Longrightarrow>
   \<exists>vt vs vf vid. text_param pt = Inr vt \<and> varchar_param 50 ps = Inr vs
     \<and> int4_param pf = Inr vf \<and> int4_param pid = Inr vid
     \<and> update_rows (thought_hit vid pu) (coalesce_thought vt vs vf db) (thoughts db)
         = Inr (thoughts db', out)
     \<and> db' = db\<lparr>thoughts := thoughts db'\<rparr>"
  by (auto simp: update_thought_def bind_e_def split: sum.splits prod.splits)




lemma put_thoughts_missing_id:
  "\<not> truthy (b_id b) \<Longrightarrow>
   put_thoughts e user b db = ((400, ErrorJson ''Missing thought ID''), db, [])"
  by (simp add: put_thoughts_def)

lemma put_thoughts_run:
  assumes "truthy (b_id b)"
  shows "put_thoughts e user b db =
     (case update_thought (prepareValue (b_text b)) (prepareValue (b_section b))
             (prepareValue (b_folder b)) (prepareValue (b_id b)) (Some (uid user)) db of
        (Inl err, db1) \<Rightarrow> (internal_error, db1,
           [Query (SqlUpdateThought (prepareValue (b_text b)) (prepareValue (b_section b))
             (prepareValue (b_folder b)) (prepareValue (b_id b)) (Some (uid user)))])
      | (Inr rows, db1) \<Rightarrow>
          (if rows = [] then (404, ErrorJson ''Thought not found or unauthorized'')
           else (200, ThoughtJson (first_row rows)), db1,
           [Query (SqlUpdateThought (prepareValue (b_text b)) (prepareValue (b_section b))
             (prepareValue (b_folder b)) (prepareValue (b_id b)) (Some (uid user)))]))"
  using assms
  by (auto simp: put_thoughts_def with_rows_def Let_def split: sum.splits prod.splits)

lemma delete_thoughts_run:
  assumes "truthy (b_id b)"
  shows "delete_thoughts e user b db =
     (case delete_thought (prepareValue (b_id b)) (Some (uid user)) db of
        (Inl err, db1) \<Rightarrow> (internal_error, db1,
           [Query (SqlDeleteThought (prepareValue (b_id b)) (Some (uid user)))])
      | (Inr rows, db1) \<Rightarrow>
          (if rows = [] then (404, ErrorJson ''Thought not found or unauthorized'')
           else (200, DeletedJson), db1,
           [Query (SqlDeleteThought (prepareValue (b_id b)) (Some (uid user)))]))"
  using assms
  by (auto simp: delete_thoughts_def with_rows_def Let_def split: sum.splits prod.splits)

lemma db_thoughts_same [simp]: "db\<lparr>thoughts := thoughts db\<rparr> = db"
  by simp


lemma filter_all: "\<forall>x \<in> set xs. P x \<Longrightarrow> filter P xs = xs"
  by (induction xs) auto


lemma coalesce_thought_coalesced:
  assumes "coalesce_thought vt vs vf db t = Inr t'"
      and "text_param (prepareValue (b_text b)) = Inr vt"
      and "varchar_param 50 (prepareValue (b_section b)) = Inr vs"
      and "int4_param (prepareValue (b_folder b)) = Inr vf"
  shows "coalesced b t t'"
proof -
  note f = coalesce_thought_fields [OF assms(1)]
  have fo: "(case prepareValue (b_folder b) of
            None \<Rightarrow> t_folder t' = t_folder t
          | Some x \<Rightarrow> (case int4in x of Inl err \<Rightarrow> False | Inr i \<Rightarrow> t_folder t' = Some i))"
    using assms(4) f
    by (auto simp: int4_param_def split: option.splits sum.splits)
  have te: "(case prepareValue (b_text b) of
            None \<Rightarrow> t_text t' = t_text t
          | Some x \<Rightarrow> t_text t' = x)"
  proof (cases "prepareValue (b_text b)")
    case None
    with assms(2) f show ?thesis by (simp add: coalesce_def)
  next
    case (Some x)
    with assms(2) have "vt = Some x" by (simp add: text_param_Some)
    with Some f show ?thesis by (simp add: coalesce_def)
  qed
  have se: "(case prepareValue (b_section b) of
            None \<Rightarrow> t_section t' = t_section t
          | Some x \<Rightarrow> varchar 50 x = Inr (t_section t'))"
  proof (cases "prepareValue (b_section b)")
    case None
    with assms(3) f show ?thesis by (simp add: coalesce_def)
  next
    case (Some x)
    with assms(3) have "\<exists>y. vs = Some y \<and> varchar 50 x = Inr y"
      using varchar_param_Some [of 50 x vs] by simp
    then obtain y where "vs = Some y" "varchar 50 x = Inr y" by blast
    with Some f show ?thesis by (simp add: coalesce_def)
  qed
  from f fo te se show ?thesis
    by (simp add: coalesced_def)
qed

lemma list_all2_unchanged: "list_all2 (\<lambda>x y. y = x) xs xs"
  by (simp add: list_all2_same)

lemma list_all2_map_eq: "list_all2 (\<lambda>x y. f y = f x) xs ys \<Longrightarrow> map f ys = map f xs"
  by (induction rule: list_all2_induct) auto

lemma put_thoughts_rows:
  assumes run: "put_thoughts e user b db = (resp, db', log)"
  shows "list_all2 (\<lambda>t t'. if fst resp = 200
                              \<and> int4_param (prepareValue (b_id b)) = Inr (Some (t_id t))
                              \<and> t_user_id t = uid user
                           then coalesced b t t' else t' = t) (thoughts db) (thoughts db')
       \<and> users db' = users db \<and> folders db' = folders db
       \<and> folders_id_seq db' = folders_id_seq db \<and> thoughts_id_seq db' = thoughts_id_seq db
       \<and> (fst resp \<noteq> 200 \<longrightarrow> db' = db)"
proof (cases "truthy (b_id b)")
  case False
  with run show ?thesis
    by (auto simp: put_thoughts_missing_id list_all2_unchanged)
next
  case True
  let ?u = "update_thought (prepareValue (b_text b)) (prepareValue (b_section b))
             (prepareValue (b_folder b)) (prepareValue (b_id b)) (Some (uid user)) db"
  obtain res db1 where u: "?u = (res, db1)" by (cases ?u)
  show ?thesis
  proof (cases res)
    case (Inl err)
    with u have "db1 = db" by (simp add: update_thought_error)
    with run True u Inl show ?thesis
      by (auto simp: put_thoughts_run internal_error_def list_all2_unchanged)
  next
    case (Inr rows)
    with u have "\<exists>vt vs vf vid. text_param (prepareValue (b_text b)) = Inr vt
        \<and> varchar_param 50 (prepareValue (b_section b)) = Inr vs
        \<and> int4_param (prepareValue (b_folder b)) = Inr vf
        \<and> int4_param (prepareValue (b_id b)) = Inr vid
        \<and> update_rows (thought_hit vid (Some (uid user))) (coalesce_thought vt vs vf db)
            (thoughts db) = Inr (thoughts db1, rows)
        \<and> db1 = db\<lparr>thoughts := thoughts db1\<rparr>"
      using update_thought_ok [of "prepareValue (b_text b)" "prepareValue (b_section b)"
          "prepareValue (b_folder b)" "prepareValue (b_id b)" "Some (uid user)" db rows db1]
      by simp
    then obtain vt vs vf vid where pt: "text_param (prepareValue (b_text b)) = Inr vt"
        "varchar_param 50 (prepareValue (b_section b)) = Inr vs"
      and p: "int4_param (prepareValue (b_folder b)) = Inr vf"
        "int4_param (prepareValue (b_id b)) = Inr vid"
      and ur: "update_rows (thought_hit vid (Some (uid user))) (coalesce_thought vt vs vf db)
            (thoughts db) = Inr (thoughts db1, rows)"
      and d: "db1 = db\<lparr>thoughts := thoughts db1\<rparr>"
      by blast
    from run True u Inr have dd: "db' = db1"
      by (auto simp: put_thoughts_run split: if_splits)
    show ?thesis
    proof (cases "rows = []")
      case True
      with ur have "thoughts db1 = thoughts db"
        using update_rows_out_empty by blast
      with d have "db1 = db" by simp
      with run \<open>truthy (b_id b)\<close> u Inr True show ?thesis
        by (auto simp: put_thoughts_run list_all2_unchanged)
    next
      case False
      have tab: "list_all2 (\<lambda>t t'. (thought_hit vid (Some (uid user)) t \<longrightarrow>
                  coalesce_thought vt vs vf db t = Inr t')
                \<and> (\<not> thought_hit vid (Some (uid user)) t \<longrightarrow> t' = t)) (thoughts db) (thoughts db1)"
        using update_rows_table [OF ur] .
      have "list_all2 (\<lambda>t t'. if fst resp = 200
                              \<and> int4_param (prepareValue (b_id b)) = Inr (Some (t_id t))
                              \<and> t_user_id t = uid user
                           then coalesced b t t' else t' = t) (thoughts db) (thoughts db1)"
      proof (rule list_all2_mono [OF tab])
        fix t t'
        assume a: "(thought_hit vid (Some (uid user)) t \<longrightarrow>
                  coalesce_thought vt vs vf db t = Inr t')
                \<and> (\<not> thought_hit vid (Some (uid user)) t \<longrightarrow> t' = t)"
        show "if fst resp = 200
                              \<and> int4_param (prepareValue (b_id b)) = Inr (Some (t_id t))
                              \<and> t_user_id t = uid user
                           then coalesced b t t' else t' = t"
        proof (cases "thought_hit vid (Some (uid user)) t")
          case True
          with a have "coalesce_thought vt vs vf db t = Inr t'" by simp
          then have "coalesced b t t'"
            using pt p(1) by (rule coalesce_thought_coalesced)
          moreover from run \<open>truthy (b_id b)\<close> u Inr False have "fst resp = 200"
            by (auto simp: put_thoughts_run)
          ultimately show ?thesis using True p by (auto simp: thought_hit_def)
        next
          case False
          with a p show ?thesis by (auto simp: thought_hit_def)
        qed
      qed
      moreover have "users db1 = users db" "folders db1 = folders db"
        "folders_id_seq db1 = folders_id_seq db" "thoughts_id_seq db1 = thoughts_id_seq db"
        by (subst d, simp)+
      moreover from run \<open>truthy (b_id b)\<close> u Inr False have "fst resp = 200"
        by (auto simp: put_thoughts_run)
      ultimately show ?thesis using dd by simp
    qed
  qed
qed

lemma put_thoughts_log:
  assumes "put_thoughts e user b db = (resp, db', log)" "truthy (b_id b)"
  shows "log = [Query (SqlUpdateThought (prepareValue (b_text b)) (prepareValue (b_section b))
                 (prepareValue (b_folder b)) (prepareValue (b_id b)) (Some (uid user)))]
       \<and> db' = snd (exec (SqlUpdateThought (prepareValue (b_text b)) (prepareValue (b_section b))
                 (prepareValue (b_folder b)) (prepareValue (b_id b)) (Some (uid user))) db)
       \<and> (\<forall>r. fst (exec (SqlUpdateThought (prepareValue (b_text b)) (prepareValue (b_section b))
                 (prepareValue (b_folder b)) (prepareValue (b_id b)) (Some (uid user))) db) = Inr r
               \<and> row_count r = 0
            \<longrightarrow> resp = (404, ErrorJson ''Thought not found or unauthorized''))"
  using assms
  by (auto simp: put_thoughts_def with_rows_def Let_def split: sum.splits prod.splits if_splits)

lemma kept_fields:
  assumes "list_all2 (\<lambda>t t'. if c t then coalesced b t t' else t' = t) ts ts'"
      and "\<not> supplied (b_text b)" "\<not> supplied (b_folder b)"
  shows "map t_text ts' = map t_text ts \<and> map t_folder ts' = map t_folder ts"
proof -
  have "list_all2 (\<lambda>t t'. t_text t' = t_text t) ts ts'"
    by (rule list_all2_mono [OF assms(1)]) (use assms(2) in \<open>auto simp: coalesced_def supplied_def split: if_splits\<close>)
  moreover have "list_all2 (\<lambda>t t'. t_folder t' = t_folder t) ts ts'"
    by (rule list_all2_mono [OF assms(1)]) (use assms(3) in \<open>auto simp: coalesced_def supplied_def split: if_splits\<close>)
  ultimately show ?thesis
    by (simp add: list_all2_map_eq)
qed

text \<open>
  C4, amended: when the \<open>id\<close> field fails the handler's test \<^verbatim>\<open>!id\<close> (it is absent,
  \<^verbatim>\<open>null\<close>, \<^verbatim>\<open>0\<close>, \<^verbatim>\<open>false\<close> or the empty string) the answer is 400 and no statement is
  issued.  Otherwise the handler issues exactly one statement, the coalescing UPDATE with
  the body's text, section, folder and id and the verified owner, and the store afterwards
  is the store that statement leaves; if the statement affects zero rows the answer is
  404.  In the store afterwards, a thought is changed only when the answer is 200 and
  its id and owner are the ones of the request, and then it is the old row with each of
  text, section and folder replaced if supplied and kept otherwise; users and folders
  are untouched.  In particular an update that supplies neither text nor folder leaves
  the text and the folder of every thought unchanged.
\<close>

theorem thought_update_contract:
  assumes "put_thoughts e user b db = (resp, db', log)"
  shows "(\<not> truthy (b_id b) \<longrightarrow>
            resp = (400, ErrorJson ''Missing thought ID'') \<and> db' = db \<and> log = [])
       \<and> (truthy (b_id b) \<longrightarrow>
            log = [Query (SqlUpdateThought (prepareValue (b_text b)) (prepareValue (b_section b))
                     (prepareValue (b_folder b)) (prepareValue (b_id b)) (Some (uid user)))]
            \<and> db' = snd (exec (SqlUpdateThought (prepareValue (b_text b)) (prepareValue (b_section b))
                     (prepareValue (b_folder b)) (prepareValue (b_id b)) (Some (uid user))) db)
            \<and> (\<forall>r. fst (exec (SqlUpdateThought (prepareValue (b_text b)) (prepareValue (b_section b))
                     (prepareValue (b_folder b)) (prepareValue (b_id b)) (Some (uid user))) db) = Inr r
                    \<and> row_count r = 0
                 \<longrightarrow> resp = (404, ErrorJson ''Thought not found or unauthorized'')))
       \<and> list_all2 (\<lambda>t t'. if fst resp = 200
                              \<and> int4_param (prepareValue (b_id b)) = Inr (Some (t_id t))
                              \<and> t_user_id t = uid user
                           then coalesced b t t' else t' = t) (thoughts db) (thoughts db')
       \<and> users db' = users db \<and> folders db' = folders db
       \<and> (\<not> supplied (b_text b) \<and> \<not> supplied (b_folder b) \<longrightarrow>
            map t_text (thoughts db') = map t_text (thoughts db)
            \<and> map t_folder (thoughts db') = map t_folder (thoughts db))"
proof -
  note rows = put_thoughts_rows [OF assms]
  have a: "\<not> truthy (b_id b) \<longrightarrow>
            resp = (400, ErrorJson ''Missing thought ID'') \<and> db' = db \<and> log = []"
    using assms by (auto simp: put_thoughts_missing_id)
  have k: "\<not> supplied (b_text b) \<and> \<not> supplied (b_folder b) \<longrightarrow>
            map t_text (thoughts db') = map t_text (thoughts db)
            \<and> map t_folder (thoughts db') = map t_folder (thoughts db)"
    using kept_fields [OF conjunct1 [OF rows]] by simp
  have l: "truthy (b_id b) \<longrightarrow>
            log = [Query (SqlUpdateThought (prepareValue (b_text b)) (prepareValue (b_section b))
                     (prepareValue (b_folder b)) (prepareValue (b_id b)) (Some (uid user)))]
            \<and> db' = snd (exec (SqlUpdateThought (prepareValue (b_text b)) (prepareValue (b_section b))
                     (prepareValue (b_folder b)) (prepareValue (b_id b)) (Some (uid user))) db)
            \<and> (\<forall>r. fst (exec (SqlUpdateThought (prepareValue (b_text b)) (prepareValue (b_section b))
                     (prepareValue (b_folder b)) (prepareValue (b_id b)) (Some (uid user))) db) = Inr r
                    \<and> row_count r = 0
                 \<longrightarrow> resp = (404, ErrorJson ''Thought not found or unauthorized''))"
    using put_thoughts_log [OF assms] by (rule impI)
  have r1: "list_all2 (\<lambda>t t'. if fst resp = 200
                              \<and> int4_param (prepareValue (b_id b)) = Inr (Some (t_id t))
                              \<and> t_user_id t = uid user
                           then coalesced b t t' else t' = t) (thoughts db) (thoughts db')"
    using rows by (rule conjunct1)
  have r2: "users db' = users db \<and> folders db' = folders db"
    using rows by simp
  show ?thesis
    by (intro conjI a l r1 k conjunct1 [OF r2] conjunct2 [OF r2])
qed

lemma sample_section_update:
  "put_thoughts sample_env alice (no_body\<lparr>b_id := JNum 1, b_section := JStr ''done''\<rparr>) shared_db
   = ((200, ThoughtJson (Some \<lparr>t_id = 1, t_user_id = ''A'', t_text = ''buy milk'',
          t_section = ''done'', t_folder = None,
          t_timestamp = Some ''2024-01-01T00:00:00.000Z''\<rparr>)),
      shared_db\<lparr>thoughts :=
        [\<lparr>t_id = 1, t_user_id = ''A'', t_text = ''buy milk'', t_section = ''done'',
          t_folder = None, t_timestamp = Some ''2024-01-01T00:00:00.000Z''\<rparr>,
         \<lparr>t_id = 2, t_user_id = ''B'', t_text = ''read'', t_section = ''todo'',
          t_folder = Some 1, t_timestamp = Some ''2024-01-01T00:00:00.000Z''\<rparr>]\<rparr>,
      [Query (SqlUpdateThought None (Some ''done'') None (Some ''1'') (Some ''A''))])"
  by code_simp

theorem thought_update_contract_witness:
  "put_thoughts sample_env alice (no_body\<lparr>b_id := JNum 1, b_section := JStr ''done''\<rparr>) shared_db
   = ((200, ThoughtJson (Some \<lparr>t_id = 1, t_user_id = ''A'', t_text = ''buy milk'',
          t_section = ''done'', t_folder = None,
          t_timestamp = Some ''2024-01-01T00:00:00.000Z''\<rparr>)),
      shared_db\<lparr>thoughts :=
        [\<lparr>t_id = 1, t_user_id = ''A'', t_text = ''buy milk'', t_section = ''done'',
          t_folder = None, t_timestamp = Some ''2024-01-01T00:00:00.000Z''\<rparr>,
         \<lparr>t_id = 2, t_user_id = ''B'', t_text = ''read'', t_section = ''todo'',
          t_folder = Some 1, t_timestamp = Some ''2024-01-01T00:00:00.000Z''\<rparr>]\<rparr>,
      [Query (SqlUpdateThought None (Some ''done'') None (Some ''1'') (Some ''A''))])
   \<and> truthy (JNum 1) \<and> \<not> supplied JUndefined
   \<and> map t_text (thoughts (shared_db\<lparr>thoughts :=
        [\<lparr>t_id = 1, t_user_id = ''A'', t_text = ''buy milk'', t_section = ''done'',
          t_folder = None, t_timestamp = Some ''2024-01-01T00:00:00.000Z''\<rparr>,
         \<lparr>t_id = 2, t_user_id = ''B'', t_text = ''read'', t_section = ''todo'',
          t_folder = Some 1, t_timestamp = Some ''2024-01-01T00:00:00.000Z''\<rparr>]\<rparr>))
     = map t_text (thoughts shared_db)"
  using thought_update_contract [OF sample_section_update] sample_section_update
  by (simp add: no_body_def supplied_def)

text \<open>
  C4, as stated: whenever the \<open>id\<close> field is not missing the handler issues the
  coalescing update.  A body that carries \<open>id\<close> as the number 0 is answered 400 and
  no statement is issued.
\<close>

theorem falsy_id_is_rejected_unqueried:
  "b_id (no_body\<lparr>b_id := JNum 0, b_section := JStr ''done''\<rparr>) \<noteq> JUndefined
   \<and> put_thoughts sample_env alice (no_body\<lparr>b_id := JNum 0, b_section := JStr ''done''\<rparr>) shared_db
       = ((400, ErrorJson ''Missing thought ID''), shared_db, [])"
  by (simp add: put_thoughts_def)

subsection \<open>Creating a thought\<close>

lemma js_split_from_hd:
  "hd (js_split_from [c0] acc s) = acc @ takeWhile (\<lambda>c. c \<noteq> c0) s"
  by (induction s arbitrary: acc) auto

lemma js_split_from_nonempty: "js_split_from sep acc s \<noteq> []"
  by (induction sep acc s rule: js_split_from.induct) auto

lemma first_piece_local_part:
  "(case js_split ''@'' m of [] \<Rightarrow> [] | local # _ \<Rightarrow> local) = local_part m"
proof -
  have "js_split ''@'' m \<noteq> []" by (simp add: js_split_def js_split_from_nonempty)
  moreover have "hd (js_split ''@'' m) = local_part m"
    by (simp add: js_split_def js_split_from_hd local_part_def)
  ultimately show ?thesis by (cases "js_split ''@'' m") auto
qed

lemma select_user_empty:
  "select_user (Some i) db = [] \<longleftrightarrow> i \<notin> set (map u_id (users db))"
  by (auto simp: select_user_def filter_empty_conv)

lemma local_part_fits: "fits n m \<Longrightarrow> fits n (local_part m)"
  using length_takeWhile_le [of "\<lambda>c. c \<noteq> CHR ''@''" m] set_takeWhileD [of "CHR 0x00" "\<lambda>c. c \<noteq> CHR ''@''" m]
  by (auto simp: local_part_def fits_def)

lemma varchar_fits: "fits n s \<Longrightarrow> varchar n s = Inr s"
  by (simp add: varchar_def fits_def)

lemma varchar_param_fits: "(case p of None \<Rightarrow> True | Some s \<Rightarrow> fits n s) \<Longrightarrow> varchar_param n p = Inr p"
  by (simp add: varchar_param_def varchar_fits split: option.splits)

lemma insert_user_result:
  "insert_user p1 p2 p3 p4 p5 db = Inr db' \<Longrightarrow>
   \<exists>row. db' = db\<lparr>users := users db @ [row]\<rparr> \<and> varchar_param 255 p1 = Inr (Some (u_id row))
     \<and> u_id row \<notin> set (map u_id (users db))"
  by (auto simp: insert_user_def bind_e_def not_null_def require_def
           split: sum.splits option.splits if_splits)

lemma insert_user_fits:
  assumes "fits 255 i" "fits 255 n"
     "case pe of None \<Rightarrow> True | Some s \<Rightarrow> fits 255 s"
     "i \<notin> set (map u_id (users db))"
  shows "insert_user (Some i) (Some n) pe None pc db =
     Inr (db\<lparr>users := users db @
        [\<lparr>u_id = i, u_username = n, u_email = pe, u_password_hash = None, u_created_at = pc\<rparr>]\<rparr>)"
proof -
  have "varchar_param 255 pe = Inr pe"
    using assms(3) by (rule varchar_param_fits)
  moreover have "varchar_param 255 (Some i) = Inr (Some i)" "varchar_param 255 (Some n) = Inr (Some n)"
    "varchar_param 255 None = Inr None"
    using assms(1,2) by (simp_all add: varchar_param_def varchar_fits)
  ultimately show ?thesis
    using assms(4) by (simp add: insert_user_def bind_e_def not_null_def require_def)
qed

lemma insert_thought_error:
  "insert_thought p1 p2 p3 p4 p5 db = (Inl err, db') \<Longrightarrow>
   thoughts db' = thoughts db \<and> users db' = users db \<and> folders db' = folders db
   \<and> folders_id_seq db' = folders_id_seq db"
  by (auto simp: insert_thought_def Let_def split: sum.splits)

lemma insert_thought_ok:
  "insert_thought p1 p2 p3 p4 p5 db = (Inr rows, db') \<Longrightarrow>
   \<exists>row. rows = [row] \<and> thoughts db' = thoughts db @ [row]
     \<and> t_id row = thoughts_id_seq db + 1 \<and> t_id row \<notin> set (map t_id (thoughts db))
     \<and> users db' = users db \<and> folders db' = folders db
     \<and> folders_id_seq db' = folders_id_seq db"
  by (auto simp: insert_thought_def new_thought_def Let_def bind_e_def not_null_def require_def
           split: sum.splits option.splits if_splits)

lemma insert_thought_needs_text_and_section:
  "p2 = None \<or> p3 = None \<Longrightarrow> \<exists>err. fst (insert_thought p1 p2 p3 p4 p5 db) = Inl err"
  by (auto simp: insert_thought_def new_thought_def Let_def bind_e_def not_null_def require_def
           varchar_param_def text_param_def
           split: sum.splits option.splits if_splits)

lemma create_thought_run:
  "create_thought e user b db log =
     (case insert_thought (Some (uid user)) (prepareValue (b_text b)) (prepareValue (b_section b))
             (prepareValue (or_null (b_folder b))) (Some (clock e 1)) db of
        (Inl err, db1) \<Rightarrow> (internal_error, db1, log @ [Query (thought_insert_stmt e user b)])
      | (Inr rows, db1) \<Rightarrow> ((201, ThoughtJson (first_row rows)), db1,
                             log @ [Query (thought_insert_stmt e user b)]))"
  by (auto simp: create_thought_def thought_insert_stmt_def with_rows_def Let_def
           split: sum.splits prod.splits)

lemma post_thoughts_known_user:
  assumes "select_user (Some (uid user)) db \<noteq> []"
  shows "post_thoughts e user b db = create_thought e user b db [Query (user_check_stmt user)]"
  using assms by (simp add: post_thoughts_def user_check_stmt_def Let_def)

lemma post_thoughts_new_user:
  assumes "select_user (Some (uid user)) db = []"
  shows "post_thoughts e user b db =
     (case insert_user (Some (uid user)) (Some (u_username (provisioned_user e user)))
             (u_email (provisioned_user e user)) None (Some (clock e 0)) db of
        Inl err \<Rightarrow> (internal_error, db, [Query (user_check_stmt user), Query (user_insert_stmt e user)])
      | Inr db2 \<Rightarrow> create_thought e user b db2
                     [Query (user_check_stmt user), Query (user_insert_stmt e user)])"
proof -
  have n: "(case present_email user of None \<Rightarrow> ''anonymous''
            | Some m \<Rightarrow> (case js_split ''@'' m of [] \<Rightarrow> [] | local # _ \<Rightarrow> local))
           = u_username (provisioned_user e user)"
    by (simp add: provisioned_user_def first_piece_local_part split: option.splits)
  have "post_thoughts e user b db =
     (case insert_user (Some (uid user))
             (Some (case present_email user of None \<Rightarrow> ''anonymous''
                | Some m \<Rightarrow> (case js_split ''@'' m of [] \<Rightarrow> [] | local # _ \<Rightarrow> local)))
             (present_email user) None (Some (clock e 0)) db of
        Inl err \<Rightarrow> (internal_error, db, [Query (user_check_stmt user), Query (user_insert_stmt e user)])
      | Inr db2 \<Rightarrow> create_thought e user b db2
                     [Query (user_check_stmt user), Query (user_insert_stmt e user)])"
    using assms
    by (simp add: post_thoughts_def user_check_stmt_def user_insert_stmt_def Let_def
          present_email_def provisioned_user_def first_piece_local_part
          split: sum.splits option.splits)
  then show ?thesis
    by (simp add: n) (simp add: provisioned_user_def)
qed

lemma create_thought_effect:
  assumes "create_thought e user b db log = (resp, db', log')"
  shows "log' = log @ [Query (thought_insert_stmt e user b)]
       \<and> users db' = users db \<and> folders db' = folders db
       \<and> (resp = internal_error \<and> thoughts db' = thoughts db
          \<or> fst resp = 201 \<and> (\<exists>row. thoughts db' = thoughts db @ [row]
                \<and> t_id row \<notin> set (map t_id (thoughts db))))"
proof -
  let ?i = "insert_thought (Some (uid user)) (prepareValue (b_text b)) (prepareValue (b_section b))
             (prepareValue (or_null (b_folder b))) (Some (clock e 1)) db"
  obtain res db1 where i: "?i = (res, db1)" by (cases ?i)
  show ?thesis
  proof (cases res)
    case (Inl err)
    with i have f: "?i = (Inl err, db1)" by simp
    note k = insert_thought_error [OF f]
    from assms f have "resp = internal_error" "db' = db1"
      "log' = log @ [Query (thought_insert_stmt e user b)]"
      by (simp_all add: create_thought_run)
    with k show ?thesis by simp
  next
    case (Inr rows)
    with i have f: "?i = (Inr rows, db1)" by simp
    note k = insert_thought_ok [OF f]
    from assms f have "fst resp = 201" "db' = db1"
      "log' = log @ [Query (thought_insert_stmt e user b)]"
      by (auto simp: create_thought_run)
    with k show ?thesis by auto
  qed
qed

lemma post_thoughts_known_user_effect:
  assumes "post_thoughts e user b db = (resp, db', log)"
      and "select_user (Some (uid user)) db \<noteq> []"
  shows "log = [Query (user_check_stmt user), Query (thought_insert_stmt e user b)]
       \<and> users db' = users db"
  using assms create_thought_effect [of e user b db "[Query (user_check_stmt user)]" resp db' log]
  by (simp add: post_thoughts_known_user)

lemma post_thoughts_new_user_effect:
  assumes "post_thoughts e user b db = (resp, db', log)"
      and "select_user (Some (uid user)) db = []"
  shows "(log = [Query (user_check_stmt user), Query (user_insert_stmt e user)]
            \<and> resp = internal_error \<and> db' = db)
         \<or> (log = [Query (user_check_stmt user), Query (user_insert_stmt e user),
                   Query (thought_insert_stmt e user b)]
            \<and> (\<exists>row. users db' = users db @ [row]))"
proof -
  let ?i = "insert_user (Some (uid user)) (Some (u_username (provisioned_user e user)))
             (u_email (provisioned_user e user)) None (Some (clock e 0)) db"
  show ?thesis
  proof (cases ?i)
    case (Inl err)
    with assms show ?thesis
      by (simp add: post_thoughts_new_user)
  next
    case (Inr db2)
    then obtain row where "users db2 = users db @ [row]"
      using insert_user_result [OF Inr] by auto
    moreover from Inr assms have
      "create_thought e user b db2 [Query (user_check_stmt user), Query (user_insert_stmt e user)]
         = (resp, db', log)"
      by (simp add: post_thoughts_new_user)
    ultimately show ?thesis
      using create_thought_effect by fastforce
  qed
qed

lemma provisioned_username_fits:
  "fits_users user \<Longrightarrow> fits 255 (u_username (provisioned_user e user))"
proof -
  assume f: "fits_users user"
  show ?thesis
  proof (cases "present_email user")
    case None
    then show ?thesis by (simp add: provisioned_user_def fits_def)
  next
    case (Some m)
    then have "email user = Some m"
      by (auto simp: present_email_def split: option.splits if_splits)
    with f have "fits 255 m" by (simp add: fits_users_def)
    with Some local_part_fits [of 255 m] show ?thesis
      by (simp add: provisioned_user_def)
  qed
qed

lemma insert_provisioned_user:
  assumes "select_user (Some (uid user)) db = []" "fits_users user"
  shows "insert_user (Some (uid user)) (Some (u_username (provisioned_user e user)))
             (u_email (provisioned_user e user)) None (Some (clock e 0)) db
         = Inr (db\<lparr>users := users db @ [provisioned_user e user]\<rparr>)"
proof -
  have e: "case u_email (provisioned_user e user) of None \<Rightarrow> True | Some s \<Rightarrow> fits 255 s"
    using assms(2)
    by (auto simp: provisioned_user_def present_email_def fits_users_def split: option.splits)
  have i: "uid user \<notin> set (map u_id (users db))"
    using assms(1) by (simp add: select_user_empty)
  have l: "fits 255 (uid user)"
    using assms(2) by (simp add: fits_users_def)
  have "\<lparr>u_id = uid user, u_username = u_username (provisioned_user e user),
         u_email = u_email (provisioned_user e user), u_password_hash = None,
         u_created_at = Some (clock e 0)\<rparr> = provisioned_user e user"
    by (simp add: provisioned_user_def)
  with insert_user_fits [OF l provisioned_username_fits [OF assms(2)] e i]
  show ?thesis by simp
qed

lemma post_thoughts_fitting_new_user:
  assumes "post_thoughts e user b db = (resp, db', log)"
      and "select_user (Some (uid user)) db = []" "fits_users user"
  shows "log = [Query (user_check_stmt user), Query (user_insert_stmt e user),
                Query (thought_insert_stmt e user b)]
       \<and> users db' = users db @ [provisioned_user e user]"
proof -
  from assms have
    "create_thought e user b (db\<lparr>users := users db @ [provisioned_user e user]\<rparr>)
        [Query (user_check_stmt user), Query (user_insert_stmt e user)] = (resp, db', log)"
    by (simp add: post_thoughts_new_user insert_provisioned_user)
  from create_thought_effect [OF this] show ?thesis by simp
qed

lemma post_thoughts_again:
  assumes "users db' = users db @ [provisioned_user e user]"
  shows "users (out_db (post_thoughts e2 user b2 db')) = users db'"
proof -
  have "select_user (Some (uid user)) db' \<noteq> []"
    using assms by (simp add: select_user_def provisioned_user_def)
  then show ?thesis
    using post_thoughts_known_user_effect [of e2 user b2 db'] 
    by (cases "post_thoughts e2 user b2 db'") (simp add: out_db_def)
qed

text \<open>
  C3: thought creation first issues the check for a user row of the verified owner.  When
  a row exists, the only other statement is the insert of the thought and the users table
  is unchanged.  When none exists, the next statement is the insert of the user row, with
  the email's local part as username or \<^verbatim>\<open>anonymous\<close> when no email is present, and the
  insert of the thought follows only after it.  For an identity as the token verifier
  delivers it (id and email fit their VARCHAR(255) columns) the first creation by a
  previously-unseen identity adds exactly the specified user row, and every later creation
  by the same identity adds none.
\<close>

theorem thought_creation_provisions_user:
  assumes "post_thoughts e user b db = (resp, db', log)"
  shows "(select_user (Some (uid user)) db \<noteq> [] \<longrightarrow>
            log = [Query (user_check_stmt user), Query (thought_insert_stmt e user b)]
            \<and> users db' = users db)
       \<and> (select_user (Some (uid user)) db = [] \<longrightarrow>
            (log = [Query (user_check_stmt user), Query (user_insert_stmt e user)]
               \<and> resp = internal_error \<and> db' = db)
            \<or> (log = [Query (user_check_stmt user), Query (user_insert_stmt e user),
                      Query (thought_insert_stmt e user b)]
               \<and> (\<exists>row. users db' = users db @ [row])))
       \<and> (select_user (Some (uid user)) db = [] \<and> fits_users user \<longrightarrow>
            log = [Query (user_check_stmt user), Query (user_insert_stmt e user),
                   Query (thought_insert_stmt e user b)]
            \<and> users db' = users db @ [provisioned_user e user]
            \<and> (\<forall>e2 b2. users (out_db (post_thoughts e2 user b2 db')) = users db'))"
proof (intro conjI impI)
  assume "select_user (Some (uid user)) db \<noteq> []"
  from post_thoughts_known_user_effect [OF assms this]
  show "log = [Query (user_check_stmt user), Query (thought_insert_stmt e user b)]"
    and "users db' = users db" by simp_all
next
  assume "select_user (Some (uid user)) db = []"
  from post_thoughts_new_user_effect [OF assms this]
  show "(log = [Query (user_check_stmt user), Query (user_insert_stmt e user)]
               \<and> resp = internal_error \<and> db' = db)
            \<or> (log = [Query (user_check_stmt user), Query (user_insert_stmt e user),
                      Query (thought_insert_stmt e user b)]
               \<and> (\<exists>row. users db' = users db @ [row]))" .
next
  assume a: "select_user (Some (uid user)) db = [] \<and> fits_users user"
  then have p: "log = [Query (user_check_stmt user), Query (user_insert_stmt e user),
                Query (thought_insert_stmt e user b)]
       \<and> users db' = users db @ [provisioned_user e user]"
    using post_thoughts_fitting_new_user [OF assms] by simp
  from p show "log = [Query (user_check_stmt user), Query (user_insert_stmt e user),
                   Query (thought_insert_stmt e user b)]" by simp
  from p show "users db' = users db @ [provisioned_user e user]" by simp
  from p show "\<forall>e2 b2. users (out_db (post_thoughts e2 user b2 db')) = users db'"
    using post_thoughts_again by blast
qed

lemma sample_first_creation:
  "post_thoughts sample_env alice (no_body\<lparr>b_text := JStr ''buy milk'', b_section := JStr ''todo''\<rparr>)
     empty_db
   = ((201, ThoughtJson (Some \<lparr>t_id = 1, t_user_id = ''A'', t_text = ''buy milk'',
          t_section = ''todo'', t_folder = None,
          t_timestamp = Some ''2024-01-01T00:00:00.000Z''\<rparr>)),
      \<lparr>users = [\<lparr>u_id = ''A'', u_username = ''alice'', u_email = Some ''alice@example.com'',
                 u_password_hash = None, u_created_at = Some ''2024-01-01T00:00:00.000Z''\<rparr>],
       folders = [],
       thoughts = [\<lparr>t_id = 1, t_user_id = ''A'', t_text = ''buy milk'', t_section = ''todo'',
                    t_folder = None, t_timestamp = Some ''2024-01-01T00:00:00.000Z''\<rparr>],
       folders_id_seq = 0, thoughts_id_seq = 1\<rparr>,
      [Query (SqlSelectUser (Some ''A'')),
       Query (SqlInsertUser (Some ''A'') (Some ''alice'') (Some ''alice@example.com'') None
                (Some ''2024-01-01T00:00:00.000Z'')),
       Query (SqlInsertThought (Some ''A'') (Some ''buy milk'') (Some ''todo'') None
                (Some ''2024-01-01T00:00:00.000Z''))])"
  by code_simp

theorem thought_creation_provisions_user_witness:
  "select_user (Some (uid alice)) empty_db = [] \<and> fits_users alice
   \<and> post_thoughts sample_env alice (no_body\<lparr>b_text := JStr ''buy milk'', b_section := JStr ''todo''\<rparr>)
       empty_db
     = ((201, ThoughtJson (Some \<lparr>t_id = 1, t_user_id = ''A'', t_text = ''buy milk'',
          t_section = ''todo'', t_folder = None,
          t_timestamp = Some ''2024-01-01T00:00:00.000Z''\<rparr>)),
      \<lparr>users = [\<lparr>u_id = ''A'', u_username = ''alice'', u_email = Some ''alice@example.com'',
                 u_password_hash = None, u_created_at = Some ''2024-01-01T00:00:00.000Z''\<rparr>],
       folders = [],
       thoughts = [\<lparr>t_id = 1, t_user_id = ''A'', t_text = ''buy milk'', t_section = ''todo'',
                    t_folder = None, t_timestamp = Some ''2024-01-01T00:00:00.000Z''\<rparr>],
       folders_id_seq = 0, thoughts_id_seq = 1\<rparr>,
      [Query (SqlSelectUser (Some ''A'')),
       Query (SqlInsertUser (Some ''A'') (Some ''alice'') (Some ''alice@example.com'') None
                (Some ''2024-01-01T00:00:00.000Z'')),
       Query (SqlInsertThought (Some ''A'') (Some ''buy milk'') (Some ''todo'') None
                (Some ''2024-01-01T00:00:00.000Z''))])
   \<and> [\<lparr>u_id = ''A'', u_username = ''alice'', u_email = Some ''alice@example.com'',
        u_password_hash = None, u_created_at = Some ''2024-01-01T00:00:00.000Z''\<rparr>]
     = users empty_db @ [provisioned_user sample_env alice]"
proof -
  have s: "select_user (Some (uid alice)) empty_db = []"
    by (simp add: select_user_def empty_db_def)
  have f: "fits_users alice"
    by (simp add: fits_users_def fits_def alice_def)
  from thought_creation_provisions_user [OF sample_first_creation] s f sample_first_creation
  show ?thesis by simp
qed

lemma exec_user_insert:
  "exec (user_insert_stmt e user) db = (Inr r, db2) \<Longrightarrow>
   insert_user (Some (uid user)) (Some (u_username (provisioned_user e user)))
     (u_email (provisioned_user e user)) None (Some (clock e 0)) db = Inr db2"
  by (auto simp: user_insert_stmt_def split: sum.splits)

lemma exec_thought_insert:
  "exec (thought_insert_stmt e user b) db =
     with_rows ThoughtRows (insert_thought (Some (uid user)) (prepareValue (b_text b))
       (prepareValue (b_section b)) (prepareValue (or_null (b_folder b))) (Some (clock e 1)) db)"
  by (simp add: thought_insert_stmt_def)

lemma fst_with_rows_error:
  "fst (with_rows mk r) = Inl err \<longleftrightarrow> fst r = Inl err"
  by (cases r) (auto simp: with_rows_def split: sum.splits)

text \<open>
  C10: when the identity has no user row, the provisioning insert succeeded and the
  thought insert then fails, the request is answered 500 and the store keeps the new user
  row (one more than before, keyed by the owner id as the column stores it) while no
  thought was added.  A body without text or without
  section makes the thought insert fail.
\<close>

theorem failed_creation_keeps_user_row:
  assumes "post_thoughts e user b db = (resp, db', log)"
      and "select_user (Some (uid user)) db = []"
      and "exec (user_insert_stmt e user) db = (Inr r, db2)"
  shows "(\<forall>err. fst (exec (thought_insert_stmt e user b) db2) = Inl err \<longrightarrow>
            resp = internal_error \<and> users db' = users db2
            \<and> length (users db') = length (users db) + 1
            \<and> (\<exists>row. users db' = users db @ [row] \<and> varchar 255 (uid user) = Inr (u_id row))
            \<and> thoughts db' = thoughts db)
       \<and> (\<not> supplied (b_text b) \<or> \<not> supplied (b_section b) \<longrightarrow>
            (\<exists>err. fst (exec (thought_insert_stmt e user b) db2) = Inl err))"
proof (intro conjI allI impI)
  fix err
  assume x: "fst (exec (thought_insert_stmt e user b) db2) = Inl err"
  let ?i = "insert_thought (Some (uid user)) (prepareValue (b_text b))
       (prepareValue (b_section b)) (prepareValue (or_null (b_folder b))) (Some (clock e 1)) db2"
  from x have "fst ?i = Inl err"
    by (simp add: exec_thought_insert fst_with_rows_error)
  then obtain db3 where i: "?i = (Inl err, db3)"
    by (cases ?i) auto
  note u = exec_user_insert [OF assms(3)]
  from insert_user_result [OF u] obtain row where
    row: "db2 = db\<lparr>users := users db @ [row]\<rparr>" "varchar_param 255 (Some (uid user)) = Inr (Some (u_id row))"
    by blast
  from assms(1,2) u i have o: "resp = internal_error" "db' = db3"
    by (simp_all add: post_thoughts_new_user create_thought_run)
  note k = insert_thought_error [OF i]
  from o show "resp = internal_error" by simp
  from o k show "users db' = users db2" by simp
  from o k row show "length (users db') = length (users db) + 1" by simp
  from o k row show "thoughts db' = thoughts db" by simp
  from row(2) have "varchar 255 (uid user) = Inr (u_id row)"
    by (auto simp: varchar_param_def split: sum.splits)
  with o k row show "\<exists>row. users db' = users db @ [row] \<and> varchar 255 (uid user) = Inr (u_id row)"
    by simp
next
  assume "\<not> supplied (b_text b) \<or> \<not> supplied (b_section b)"
  then have "prepareValue (b_text b) = None \<or> prepareValue (b_section b) = None"
    by (simp add: supplied_def)
  from insert_thought_needs_text_and_section [OF this]
  show "\<exists>err. fst (exec (thought_insert_stmt e user b) db2) = Inl err"
    by (simp add: exec_thought_insert fst_with_rows_error)
qed

lemma sample_failed_creation:
  "post_thoughts sample_env bob (no_body\<lparr>b_section := JStr ''todo''\<rparr>) empty_db
   = (internal_error,
      \<lparr>users = [\<lparr>u_id = ''B'', u_username = ''anonymous'', u_email = None,
                 u_password_hash = None, u_created_at = Some ''2024-01-01T00:00:00.000Z''\<rparr>],
       folders = [], thoughts = [], folders_id_seq = 0, thoughts_id_seq = 1\<rparr>,
      [Query (SqlSelectUser (Some ''B'')),
       Query (SqlInsertUser (Some ''B'') (Some ''anonymous'') None None
                (Some ''2024-01-01T00:00:00.000Z'')),
       Query (SqlInsertThought (Some ''B'') None (Some ''todo'') None
                (Some ''2024-01-01T00:00:00.000Z''))])"
  by code_simp

lemma sample_provisioning:
  "exec (user_insert_stmt sample_env bob) empty_db
   = (Inr (Affected 1),
      \<lparr>users = [\<lparr>u_id = ''B'', u_username = ''anonymous'', u_email = None,
                 u_password_hash = None, u_created_at = Some ''2024-01-01T00:00:00.000Z''\<rparr>],
       folders = [], thoughts = [], folders_id_seq = 0, thoughts_id_seq = 0\<rparr>)"
  by code_simp

theorem failed_creation_keeps_user_row_witness:
  "select_user (Some (uid bob)) empty_db = []
   \<and> \<not> supplied (b_text (no_body\<lparr>b_section := JStr ''todo''\<rparr>))
   \<and> fst (post_thoughts sample_env bob (no_body\<lparr>b_section := JStr ''todo''\<rparr>) empty_db)
       = internal_error
   \<and> users empty_db = []
   \<and> users (out_db (post_thoughts sample_env bob (no_body\<lparr>b_section := JStr ''todo''\<rparr>) empty_db))
       = [\<lparr>u_id = ''B'', u_username = ''anonymous'', u_email = None,
           u_password_hash = None, u_created_at = Some ''2024-01-01T00:00:00.000Z''\<rparr>]
   \<and> (\<exists>err. fst (exec (thought_insert_stmt sample_env bob (no_body\<lparr>b_section := JStr ''todo''\<rparr>))
         \<lparr>users = [\<lparr>u_id = ''B'', u_username = ''anonymous'', u_email = None,
                 u_password_hash = None, u_created_at = Some ''2024-01-01T00:00:00.000Z''\<rparr>],
          folders = [], thoughts = [], folders_id_seq = 0, thoughts_id_seq = 0\<rparr>) = Inl err)"
proof -
  have s: "select_user (Some (uid bob)) empty_db = []"
    by (simp add: select_user_def empty_db_def)
  have n: "\<not> supplied (b_text (no_body\<lparr>b_section := JStr ''todo''\<rparr>))"
    by (simp add: supplied_def no_body_def)
  from failed_creation_keeps_user_row [OF sample_failed_creation s sample_provisioning] n
  have "\<exists>err. fst (exec (thought_insert_stmt sample_env bob (no_body\<lparr>b_section := JStr ''todo''\<rparr>))
         \<lparr>users = [\<lparr>u_id = ''B'', u_username = ''anonymous'', u_email = None,
                 u_password_hash = None, u_created_at = Some ''2024-01-01T00:00:00.000Z''\<rparr>],
          folders = [], thoughts = [], folders_id_seq = 0, thoughts_id_seq = 0\<rparr>) = Inl err"
    by blast
  with s n sample_failed_creation show ?thesis
    by (simp add: out_db_def empty_db_def)
qed

subsection \<open>Deleting a folder\<close>

lemma names_id_param: "names_id v i \<Longrightarrow> int4_param (prepareValue v) = Inr (Some i)"
  by (simp add: names_id_def)

lemma truthy_names_some:
  "truthy v \<Longrightarrow> int4_param (prepareValue v) = Inr vid \<Longrightarrow> \<exists>i. vid = Some i \<and> names_id v i"
  by (cases v) (auto simp: names_id_def int4_param_def split: sum.splits)

lemma detach_hit_named:
  "detach_hit (Some fid) (Some u) = (\<lambda>t. t_folder t = Some fid \<and> t_user_id t = u)"
  by (auto simp: detach_hit_def fun_eq_iff)

lemma folder_hit_named:
  "folder_hit (Some fid) (Some u) = (\<lambda>f. f_id f = fid \<and> f_user_id f = u)"
  by (auto simp: folder_hit_def fun_eq_iff)

lemma thought_hit_named:
  "thought_hit (Some i) (Some u) = (\<lambda>t. t_id t = i \<and> t_user_id t = u)"
  by (auto simp: thought_hit_def fun_eq_iff)

lemma detach_folder_named:
  assumes "int4_param pid = Inr (Some fid)"
  shows "detach_folder pid (Some u) db =
     (Inr (length (filter (\<lambda>t. t_folder t = Some fid \<and> t_user_id t = u) (thoughts db))),
      db\<lparr>thoughts := map (\<lambda>t. if t_folder t = Some fid \<and> t_user_id t = u
                               then t\<lparr>t_folder := None\<rparr> else t) (thoughts db)\<rparr>)"
  using assms by (simp add: detach_folder_def detach_hit_named)

lemma delete_folder_named:
  assumes "int4_param pid = Inr (Some fid)"
  shows "delete_folder pid (Some u) db =
     (Inr (filter (\<lambda>f. f_id f = fid \<and> f_user_id f = u) (folders db)),
      db\<lparr>folders := filter (\<lambda>f. \<not> (f_id f = fid \<and> f_user_id f = u)) (folders db),
         thoughts := map (\<lambda>t. if (case t_folder t of None \<Rightarrow> False
                                   | Some f \<Rightarrow> f \<in> set (map f_id
                                        (filter (\<lambda>f. f_id f = fid \<and> f_user_id f = u) (folders db))))
                               then t\<lparr>t_folder := None\<rparr> else t) (thoughts db)\<rparr>)"
  using assms by (simp add: delete_folder_def folder_hit_named Let_def)

lemma delete_folders_missing_id:
  "\<not> truthy (b_id b) \<Longrightarrow>
   delete_folders e user b db = ((400, ErrorJson ''Folder ID is required''), db, [])"
  by (simp add: delete_folders_def)

lemma delete_folders_named:
  assumes "names_id (b_id b) fid"
  shows "delete_folders e user b db =
     (let db1 = snd (detach_folder (prepareValue (b_id b)) (Some (uid user)) db);
          r2 = delete_folder (prepareValue (b_id b)) (Some (uid user)) db1
      in (if filter (\<lambda>f. f_id f = fid \<and> f_user_id f = uid user) (folders db) = []
          then (404, ErrorJson ''Folder not found or unauthorized'')
          else (200, DeletedJson),
          snd r2,
          [Query (detach_stmt user b), Query (folder_delete_stmt user b)]))"
proof -
  have p: "int4_param (prepareValue (b_id b)) = Inr (Some fid)" and t: "truthy (b_id b)"
    using assms by (simp_all add: names_id_def)
  show ?thesis
    using t
    by (simp add: delete_folders_def detach_stmt_def folder_delete_stmt_def with_rows_def
          detach_folder_named [OF p] delete_folder_named [OF p] Let_def)
qed

lemma exec_detach_stmt:
  "exec (detach_stmt user b) db =
     with_rows Affected (detach_folder (prepareValue (b_id b)) (Some (uid user)) db)"
  by (simp add: detach_stmt_def)

lemma exec_folder_delete_stmt:
  "exec (folder_delete_stmt user b) db =
     with_rows FolderRows (delete_folder (prepareValue (b_id b)) (Some (uid user)) db)"
  by (simp add: folder_delete_stmt_def)

lemma snd_with_rows: "snd (with_rows mk r) = snd r"
  by (cases r) (auto simp: with_rows_def split: sum.splits)

lemma delete_folders_store:
  assumes "delete_folders e user b db = (resp, db', log)" "names_id (b_id b) fid"
  shows "db' = db\<lparr>folders := filter (\<lambda>f. \<not> (f_id f = fid \<and> f_user_id f = uid user)) (folders db),
              thoughts := map (\<lambda>t. if (case t_folder t of None \<Rightarrow> False
                                   | Some f \<Rightarrow> f \<in> set (map f_id
                                        (filter (\<lambda>f. f_id f = fid \<and> f_user_id f = uid user) (folders db))))
                               then t\<lparr>t_folder := None\<rparr> else t)
                         (map (\<lambda>t. if t_folder t = Some fid \<and> t_user_id t = uid user
                               then t\<lparr>t_folder := None\<rparr> else t) (thoughts db))\<rparr>"
    and "log = [Query (detach_stmt user b), Query (folder_delete_stmt user b)]"
    and "resp = (if filter (\<lambda>f. f_id f = fid \<and> f_user_id f = uid user) (folders db) = []
          then (404, ErrorJson ''Folder not found or unauthorized'')
          else (200, DeletedJson))"
proof -
  have p: "int4_param (prepareValue (b_id b)) = Inr (Some fid)"
    using assms(2) by (simp add: names_id_def)
  from assms(1) show "db' = db\<lparr>folders := filter (\<lambda>f. \<not> (f_id f = fid \<and> f_user_id f = uid user)) (folders db),
              thoughts := map (\<lambda>t. if (case t_folder t of None \<Rightarrow> False
                                   | Some f \<Rightarrow> f \<in> set (map f_id
                                        (filter (\<lambda>f. f_id f = fid \<and> f_user_id f = uid user) (folders db))))
                               then t\<lparr>t_folder := None\<rparr> else t)
                         (map (\<lambda>t. if t_folder t = Some fid \<and> t_user_id t = uid user
                               then t\<lparr>t_folder := None\<rparr> else t) (thoughts db))\<rparr>"
    by (simp add: delete_folders_named [OF assms(2)] detach_folder_named [OF p]
          delete_folder_named [OF p] Let_def cong: option.case_cong)
  from assms(1) show "log = [Query (detach_stmt user b), Query (folder_delete_stmt user b)]"
    by (simp add: delete_folders_named [OF assms(2)] Let_def)
  from assms(1) show "resp = (if filter (\<lambda>f. f_id f = fid \<and> f_user_id f = uid user) (folders db) = []
          then (404, ErrorJson ''Folder not found or unauthorized'')
          else (200, DeletedJson))"
    by (simp add: delete_folders_named [OF assms(2)] Let_def)
qed

lemma get_folders_run:
  "get_folders e user b db = ((200, FoldersJson (select_folders (Some (uid user)) db)), db,
      [Query (SqlSelectFolders (Some (uid user)))])"
  by (simp add: get_folders_def Let_def)

text \<open>
  C5: a folder deletion that names folder \<open>fid\<close> issues two statements, first the detach,
  then the delete of the folder row scoped to id and owner, the second on the store the
  first leaves.  The detach clears the folder reference of exactly the thoughts of the
  verified owner that reference \<open>fid\<close> (their number is its row count).  Afterwards each
  of those thoughts is the row it was with the reference cleared, thoughts that did not
  reference \<open>fid\<close> are unchanged, and no folder with this id and owner is left; when the
  owner had such a folder the answer is 200 and a later folder list of the owner does not
  contain \<open>fid\<close>.
\<close>

theorem folder_deletion_two_steps:
  assumes "delete_folders e user b db = (resp, db', log)" "names_id (b_id b) fid"
  shows "log = [Query (detach_stmt user b), Query (folder_delete_stmt user b)]
       \<and> exec (detach_stmt user b) db =
           (Inr (Affected (length (filter (\<lambda>t. t_folder t = Some fid \<and> t_user_id t = uid user)
                                     (thoughts db)))),
            db\<lparr>thoughts := map (\<lambda>t. if t_folder t = Some fid \<and> t_user_id t = uid user
                                     then t\<lparr>t_folder := None\<rparr> else t) (thoughts db)\<rparr>)
       \<and> db' = snd (exec (folder_delete_stmt user b) (snd (exec (detach_stmt user b) db)))
       \<and> folders db' = filter (\<lambda>f. \<not> (f_id f = fid \<and> f_user_id f = uid user)) (folders db)
       \<and> list_all2 (\<lambda>t t'. if t_folder t = Some fid
                            then (t_user_id t = uid user \<longrightarrow> t' = t\<lparr>t_folder := None\<rparr>)
                                 \<and> (t' = t \<or> t' = t\<lparr>t_folder := None\<rparr>)
                            else t' = t) (thoughts db) (thoughts db')
       \<and> (\<forall>t \<in> set (thoughts db'). t_user_id t = uid user \<longrightarrow> t_folder t \<noteq> Some fid)
       \<and> ((\<exists>f \<in> set (folders db). f_id f = fid \<and> f_user_id f = uid user) \<longrightarrow>
            resp = (200, DeletedJson)
            \<and> (\<forall>e2 b2. fst (get_folders e2 user b2 db')
                        = (200, FoldersJson (select_folders (Some (uid user)) db'))
                      \<and> fid \<notin> set (map f_id (select_folders (Some (uid user)) db'))))"
proof -
  note s = delete_folders_store [OF assms]
  have p: "int4_param (prepareValue (b_id b)) = Inr (Some fid)"
    using assms(2) by (simp add: names_id_def)
  have c1: "log = [Query (detach_stmt user b), Query (folder_delete_stmt user b)]"
    using s(2) .
  have c2: "exec (detach_stmt user b) db =
           (Inr (Affected (length (filter (\<lambda>t. t_folder t = Some fid \<and> t_user_id t = uid user)
                                     (thoughts db)))),
            db\<lparr>thoughts := map (\<lambda>t. if t_folder t = Some fid \<and> t_user_id t = uid user
                                     then t\<lparr>t_folder := None\<rparr> else t) (thoughts db)\<rparr>)"
    by (simp add: exec_detach_stmt detach_folder_named [OF p] with_rows_def)
  have c3: "db' = snd (exec (folder_delete_stmt user b) (snd (exec (detach_stmt user b) db)))"
    by (simp add: c2 exec_folder_delete_stmt snd_with_rows delete_folder_named [OF p] s(1)
          cong: option.case_cong)
  have c4: "folders db' = filter (\<lambda>f. \<not> (f_id f = fid \<and> f_user_id f = uid user)) (folders db)"
    by (subst s(1)) simp
  have th: "thoughts db' = map (\<lambda>t. if (case t_folder t of None \<Rightarrow> False
                                   | Some f \<Rightarrow> f \<in> set (map f_id
                                        (filter (\<lambda>f. f_id f = fid \<and> f_user_id f = uid user) (folders db))))
                               then t\<lparr>t_folder := None\<rparr> else t)
                         (map (\<lambda>t. if t_folder t = Some fid \<and> t_user_id t = uid user
                               then t\<lparr>t_folder := None\<rparr> else t) (thoughts db))"
    by (subst s(1)) simp
  have c5: "list_all2 (\<lambda>t t'. if t_folder t = Some fid
                            then (t_user_id t = uid user \<longrightarrow> t' = t\<lparr>t_folder := None\<rparr>)
                                 \<and> (t' = t \<or> t' = t\<lparr>t_folder := None\<rparr>)
                            else t' = t) (thoughts db) (thoughts db')"
    unfolding th
    by (simp add: list_all2_map2 list_all2_same) (auto split: option.splits)
  have c6: "\<forall>t \<in> set (thoughts db'). t_user_id t = uid user \<longrightarrow> t_folder t \<noteq> Some fid"
    unfolding th by (auto split: option.splits)
  have c7: "(\<exists>f \<in> set (folders db). f_id f = fid \<and> f_user_id f = uid user) \<longrightarrow>
            resp = (200, DeletedJson)
            \<and> (\<forall>e2 b2. fst (get_folders e2 user b2 db')
                        = (200, FoldersJson (select_folders (Some (uid user)) db'))
                      \<and> fid \<notin> set (map f_id (select_folders (Some (uid user)) db')))"
  proof
    assume "\<exists>f \<in> set (folders db). f_id f = fid \<and> f_user_id f = uid user"
    then have "filter (\<lambda>f. f_id f = fid \<and> f_user_id f = uid user) (folders db) \<noteq> []"
      by (auto simp: filter_empty_conv)
    with s(3) have "resp = (200, DeletedJson)" by simp
    moreover have "fid \<notin> set (map f_id (select_folders (Some (uid user)) db'))"
      by (auto simp: select_folders_def c4)
    ultimately show "resp = (200, DeletedJson)
            \<and> (\<forall>e2 b2. fst (get_folders e2 user b2 db')
                        = (200, FoldersJson (select_folders (Some (uid user)) db'))
                      \<and> fid \<notin> set (map f_id (select_folders (Some (uid user)) db')))"
      by (simp add: get_folders_run)
  qed
  show ?thesis
    by (intro conjI c1 c2 c3 c4 c5 c6 c7)
qed

lemma sample_folder_deletion:
  "delete_folders sample_env alice (no_body\<lparr>b_id := JNum 1\<rparr>) filed_db
   = ((200, DeletedJson),
      filed_db\<lparr>folders := [],
               thoughts := [\<lparr>t_id = 1, t_user_id = ''A'', t_text = ''buy milk'',
                 t_section = ''todo'', t_folder = None,
                 t_timestamp = Some ''2024-01-01T00:00:00.000Z''\<rparr>]\<rparr>,
      [Query (SqlDetachFolder (Some ''1'') (Some ''A'')),
       Query (SqlDeleteFolder (Some ''1'') (Some ''A''))])"
  by code_simp

text \<open>A non-zero 32-bit integer sent as a JSON number names that id.\<close>

lemma names_id_JNum:
  "i \<noteq> 0 \<Longrightarrow> - 2147483648 \<le> i \<Longrightarrow> i \<le> 2147483647 \<Longrightarrow> names_id (JNum i) i"
  using int4_param_JNum [of i] by (simp add: names_id_def)

lemma names_id_one: "names_id (JNum 1) 1"
  by (simp add: names_id_JNum)

theorem folder_deletion_two_steps_witness:
  "names_id (b_id (no_body\<lparr>b_id := JNum 1\<rparr>)) 1
   \<and> delete_folders sample_env alice (no_body\<lparr>b_id := JNum 1\<rparr>) filed_db
     = ((200, DeletedJson),
        filed_db\<lparr>folders := [],
                 thoughts := [\<lparr>t_id = 1, t_user_id = ''A'', t_text = ''buy milk'',
                   t_section = ''todo'', t_folder = None,
                   t_timestamp = Some ''2024-01-01T00:00:00.000Z''\<rparr>]\<rparr>,
        [Query (SqlDetachFolder (Some ''1'') (Some ''A'')),
         Query (SqlDeleteFolder (Some ''1'') (Some ''A''))])
   \<and> (\<exists>f \<in> set (folders filed_db). f_id f = 1 \<and> f_user_id f = uid alice)
   \<and> fst (exec (detach_stmt alice (no_body\<lparr>b_id := JNum 1\<rparr>)) filed_db) = Inr (Affected 1)
   \<and> 1 \<notin> set (map f_id (select_folders (Some (uid alice))
        (filed_db\<lparr>folders := [],
                 thoughts := [\<lparr>t_id = 1, t_user_id = ''A'', t_text = ''buy milk'',
                   t_section = ''todo'', t_folder = None,
                   t_timestamp = Some ''2024-01-01T00:00:00.000Z''\<rparr>]\<rparr>)))"
proof -
  have n: "names_id (b_id (no_body\<lparr>b_id := JNum 1\<rparr>)) 1"
    by (simp add: names_id_one)
  have f: "\<exists>f \<in> set (folders filed_db). f_id f = 1 \<and> f_user_id f = uid alice"
    by (simp add: filed_db_def alice_def)
  have d: "length (filter (\<lambda>t. t_folder t = Some 1 \<and> t_user_id t = uid alice) (thoughts filed_db)) = 1"
    by (simp add: filed_db_def alice_def)
  note t = folder_deletion_two_steps [OF sample_folder_deletion n]
  from t have "exec (detach_stmt alice (no_body\<lparr>b_id := JNum 1\<rparr>)) filed_db =
           (Inr (Affected (length (filter (\<lambda>t. t_folder t = Some 1 \<and> t_user_id t = uid alice)
                                     (thoughts filed_db)))),
            filed_db\<lparr>thoughts := map (\<lambda>t. if t_folder t = Some 1 \<and> t_user_id t = uid alice
                                     then t\<lparr>t_folder := None\<rparr> else t) (thoughts filed_db)\<rparr>)"
    by (rule conjunct1 [OF conjunct2])
  then have x: "fst (exec (detach_stmt alice (no_body\<lparr>b_id := JNum 1\<rparr>)) filed_db) = Inr (Affected 1)"
    by (simp only: d fst_conv)
  from t f have y: "1 \<notin> set (map f_id (select_folders (Some (uid alice))
        (filed_db\<lparr>folders := [],
                 thoughts := [\<lparr>t_id = 1, t_user_id = ''A'', t_text = ''buy milk'',
                   t_section = ''todo'', t_folder = None,
                   t_timestamp = Some ''2024-01-01T00:00:00.000Z''\<rparr>]\<rparr>)))"
    by blast
  show ?thesis
    by (intro conjI n sample_folder_deletion f x y)
qed

lemma delete_folders_unparsable:
  assumes "truthy (b_id b)" "int4_param (prepareValue (b_id b)) = Inl err"
  shows "delete_folders e user b db = (internal_error, db, [Query (detach_stmt user b)])"
  using assms
  by (simp add: delete_folders_def detach_stmt_def with_rows_def detach_folder_def Let_def)

lemma not_found_names_id:
  assumes "delete_folders e user b db = (resp, db', log)" "fst resp = 404"
  shows "\<exists>i. names_id (b_id b) i"
proof (cases "truthy (b_id b)")
  case False
  with assms show ?thesis by (auto simp: delete_folders_missing_id)
next
  case True
  show ?thesis
  proof (cases "int4_param (prepareValue (b_id b))")
    case (Inl err)
    with True assms show ?thesis
      by (auto simp: delete_folders_unparsable internal_error_def)
  next
    case (Inr vid)
    with True show ?thesis using truthy_names_some by blast
  qed
qed

lemma map_unchanged: "\<forall>x \<in> set xs. f x = x \<Longrightarrow> map f xs = xs"
  by (induction xs) auto

lemma folder_refs_ownedD:
  "folder_refs_owned db \<Longrightarrow> t \<in> set (thoughts db) \<Longrightarrow> t_folder t = Some f \<Longrightarrow>
   \<exists>g \<in> set (folders db). f_id g = f \<and> f_user_id g = t_user_id t"
  by (auto simp: folder_refs_owned_def list_all_iff list_ex_iff split: option.splits)

text \<open>
  C6, amended: in a store where every folder reference of a thought points to a folder of
  the thought's own owner, a folder deletion that is answered not-found had a detach step
  that affected zero rows, and it leaves every thought (the whole store) unchanged.
\<close>

theorem not_found_folder_deletion_changes_nothing:
  assumes "delete_folders e user b db = (resp, db', log)"
      and "fst resp = 404"
      and "folder_refs_owned db"
  shows "fst (exec (detach_stmt user b) db) = Inr (Affected 0)
       \<and> thoughts db' = thoughts db \<and> db' = db"
proof -
  from not_found_names_id [OF assms(1,2)] obtain fid where n: "names_id (b_id b) fid" by blast
  note s = delete_folders_store [OF assms(1) n]
  have p: "int4_param (prepareValue (b_id b)) = Inr (Some fid)"
    using n by (simp add: names_id_def)
  from s(3) assms(2) have gone: "filter (\<lambda>f. f_id f = fid \<and> f_user_id f = uid user) (folders db) = []"
    by (simp split: if_splits)
  then have nof: "\<forall>f \<in> set (folders db). \<not> (f_id f = fid \<and> f_user_id f = uid user)"
    by (simp add: filter_empty_conv)
  have noref: "\<forall>t \<in> set (thoughts db). \<not> (t_folder t = Some fid \<and> t_user_id t = uid user)"
  proof
    fix t assume t: "t \<in> set (thoughts db)"
    show "\<not> (t_folder t = Some fid \<and> t_user_id t = uid user)"
    proof
      assume a: "t_folder t = Some fid \<and> t_user_id t = uid user"
      with folder_refs_ownedD [OF assms(3) t] obtain g
        where "g \<in> set (folders db)" "f_id g = fid" "f_user_id g = uid user" by auto
      with nof show False by blast
    qed
  qed
  then have none: "filter (\<lambda>t. t_folder t = Some fid \<and> t_user_id t = uid user) (thoughts db) = []"
    by (simp add: filter_empty_conv)
  have m1: "map (\<lambda>t. if t_folder t = Some fid \<and> t_user_id t = uid user
                      then t\<lparr>t_folder := None\<rparr> else t) (thoughts db) = thoughts db"
    using noref by (intro map_unchanged) auto
  have m2: "filter (\<lambda>f. \<not> (f_id f = fid \<and> f_user_id f = uid user)) (folders db) = folders db"
    using nof by (simp add: filter_all)
  have c1: "fst (exec (detach_stmt user b) db) = Inr (Affected 0)"
    by (simp add: exec_detach_stmt detach_folder_named [OF p] with_rows_def none)
  have m2': "filter (\<lambda>f. f_id f = fid \<longrightarrow> f_user_id f \<noteq> uid user) (folders db) = folders db"
    using nof by (intro filter_all) auto
  have m3: "map (\<lambda>t. if case t_folder t of None \<Rightarrow> False | Some f \<Rightarrow> False
                     then t\<lparr>t_folder := None\<rparr> else t) (thoughts db) = thoughts db"
    by (intro map_unchanged) (auto split: option.splits)
  have d: "db' = db"
    by (subst s(1)) (simp add: gone m1 m2' m3 cong: option.case_cong)
  from c1 d show ?thesis by simp
qed

lemma sample_foreign_folder_deletion:
  "delete_folders sample_env bob (no_body\<lparr>b_id := JNum 1\<rparr>) filed_db
   = ((404, ErrorJson ''Folder not found or unauthorized''), filed_db,
      [Query (SqlDetachFolder (Some ''1'') (Some ''B'')),
       Query (SqlDeleteFolder (Some ''1'') (Some ''B''))])"
  by code_simp

lemma filed_db_refs_owned: "folder_refs_owned filed_db"
  by (simp add: folder_refs_owned_def filed_db_def)

theorem not_found_folder_deletion_changes_nothing_witness:
  "delete_folders sample_env bob (no_body\<lparr>b_id := JNum 1\<rparr>) filed_db
   = ((404, ErrorJson ''Folder not found or unauthorized''), filed_db,
      [Query (SqlDetachFolder (Some ''1'') (Some ''B'')),
       Query (SqlDeleteFolder (Some ''1'') (Some ''B''))])
   \<and> folder_refs_owned filed_db
   \<and> fst (exec (detach_stmt bob (no_body\<lparr>b_id := JNum 1\<rparr>)) filed_db) = Inr (Affected 0)"
proof -
  have r: "fst ((404, ErrorJson ''Folder not found or unauthorized'') :: response) = 404"
    by simp
  from not_found_folder_deletion_changes_nothing
         [OF sample_foreign_folder_deletion r filed_db_refs_owned]
  have "fst (exec (detach_stmt bob (no_body\<lparr>b_id := JNum 1\<rparr>)) filed_db) = Inr (Affected 0)"
    by (rule conjunct1)
  with sample_foreign_folder_deletion filed_db_refs_owned show ?thesis
    by (intro conjI)
qed

lemma single_owner_db_reachable:
  "out_db (app sample_env
     \<lparr>req_method = POST, req_path = ''/api/folders'', authorization = Some ''Bearer tokA'',
      body = no_body\<lparr>b_name := JStr ''work''\<rparr>, json_error = None\<rparr>
     (out_db (app sample_env
        \<lparr>req_method = POST, req_path = ''/api/thoughts'', authorization = Some ''Bearer tokA'',
         body = no_body\<lparr>b_text := JStr ''buy milk'', b_section := JStr ''todo''\<rparr>, json_error = None\<rparr>
        empty_db))) = single_owner_db"
  by code_simp

lemma shared_db_reachable:
  "out_db (app sample_env
     \<lparr>req_method = POST, req_path = ''/api/thoughts'', authorization = Some ''Bearer tokB'',
      body = no_body\<lparr>b_text := JStr ''read'', b_section := JStr ''todo'', b_folder := JNum 1\<rparr>, json_error = None\<rparr>
     (out_db (app sample_env
        \<lparr>req_method = POST, req_path = ''/api/folders'', authorization = Some ''Bearer tokA'',
         body = no_body\<lparr>b_name := JStr ''work''\<rparr>, json_error = None\<rparr>
        (out_db (app sample_env
           \<lparr>req_method = POST, req_path = ''/api/thoughts'', authorization = Some ''Bearer tokA'',
            body = no_body\<lparr>b_text := JStr ''buy milk'', b_section := JStr ''todo''\<rparr>, json_error = None\<rparr>
           empty_db))))) = shared_db"
  by code_simp

text \<open>
  C6, as stated: whenever a folder deletion is answered not-found, its detach step
  affected zero thought rows and every thought row is unchanged.  In the store
  \<open>shared_db\<close> (reached from the empty store by three requests) B's thought is filed
  under A's folder 1.  B's request to delete folder 1 is answered 404, yet its detach
  step affected one row and B's thought has lost its folder.
\<close>

theorem not_found_folder_deletion_detaches:
  "fst (app sample_env
          \<lparr>req_method = DELETE, req_path = ''/api/folders'', authorization = Some ''Bearer tokB'',
           body = no_body\<lparr>b_id := JNum 1\<rparr>, json_error = None\<rparr> shared_db)
     = (404, ErrorJson ''Folder not found or unauthorized'')
   \<and> fst (exec (SqlDetachFolder (prepareValue (JNum 1)) (Some ''B'')) shared_db) = Inr (Affected 1)
   \<and> map t_folder (thoughts shared_db) = [None, Some 1]
   \<and> map t_folder (thoughts (out_db (app sample_env
          \<lparr>req_method = DELETE, req_path = ''/api/folders'', authorization = Some ''Bearer tokB'',
           body = no_body\<lparr>b_id := JNum 1\<rparr>, json_error = None\<rparr> shared_db))) = [None, None]"
  by code_simp

subsection \<open>Ids that are missing or belong to another owner\<close>












subsection \<open>Creating a folder\<close>

lemma post_folders_missing_name:
  "\<not> truthy (b_name b) \<Longrightarrow>
   post_folders e user b db = ((400, ErrorJson ''Folder name is required''), db, [])"
  by (simp add: post_folders_def)

lemma post_folders_run:
  assumes "truthy (b_name b)"
  shows "post_folders e user b db =
     (case insert_folder (Some (uid user)) (prepareValue (b_name b)) (Some (clock e 0)) db of
        (Inl err, db1) \<Rightarrow> (internal_error, db1,
           [Query (SqlInsertFolder (Some (uid user)) (prepareValue (b_name b)) (Some (clock e 0)))])
      | (Inr rows, db1) \<Rightarrow> ((201, FolderJson (first_row rows)), db1,
           [Query (SqlInsertFolder (Some (uid user)) (prepareValue (b_name b)) (Some (clock e 0)))]))"
  using assms
  by (auto simp: post_folders_def with_rows_def Let_def split: sum.splits prod.splits)

lemma insert_folder_error:
  "insert_folder pu pn pts db = (Inl err, db') \<Longrightarrow>
   folders db' = folders db \<and> users db' = users db \<and> thoughts db' = thoughts db"
  by (auto simp: insert_folder_def Let_def split: sum.splits)

lemma insert_folder_ok:
  "insert_folder pu pn pts db = (Inr rows, db') \<Longrightarrow>
   \<exists>row. rows = [row] \<and> folders db' = folders db @ [row]
     \<and> f_id row = folders_id_seq db + 1
     \<and> varchar_param 255 pu = Inr (Some (f_user_id row))
     \<and> varchar_param 255 pn = Inr (Some (f_name row))
     \<and> (f_user_id row, f_name row) \<notin> set (map (\<lambda>f. (f_user_id f, f_name f)) (folders db))
     \<and> f_user_id row \<in> set (map u_id (users db))
     \<and> users db' = users db \<and> thoughts db' = thoughts db"
  by (auto simp: insert_folder_def new_folder_def Let_def bind_e_def not_null_def require_def
           split: sum.splits option.splits if_splits)

lemma insert_folder_duplicate:
  assumes "fits 255 u" "varchar_param 255 pn = Inr (Some n)"
      and "\<exists>f \<in> set (folders db). f_user_id f = u \<and> f_name f = n"
  shows "\<exists>err. fst (insert_folder (Some u) pn pts db) = Inl err"
    and "\<forall>f \<in> set (folders db). f_id f \<le> folders_id_seq db \<Longrightarrow>
         fst (insert_folder (Some u) pn pts db) = Inl UniqueViolation"
proof -
  have u: "varchar_param 255 (Some u) = Inr (Some u)"
    using assms(1) by (simp add: varchar_param_def varchar_fits)
  have d: "(u, n) \<in> set (map (\<lambda>f. (f_user_id f, f_name f)) (folders db))"
    using assms(3) by force
  show "\<exists>err. fst (insert_folder (Some u) pn pts db) = Inl err"
    using u assms(2) d
    by (simp add: insert_folder_def new_folder_def Let_def bind_e_def not_null_def require_def)
  assume "\<forall>f \<in> set (folders db). f_id f \<le> folders_id_seq db"
  then have "folders_id_seq db + 1 \<notin> set (map f_id (folders db))"
    by auto
  then show "fst (insert_folder (Some u) pn pts db) = Inl UniqueViolation"
    using u assms(2) d
    by (simp add: insert_folder_def new_folder_def Let_def bind_e_def not_null_def require_def)
qed

lemma insert_folder_fresh:
  assumes "fits 255 u" "varchar_param 255 pn = Inr (Some n)"
      and "u \<in> set (map u_id (users db))"
      and "\<forall>f \<in> set (folders db). f_id f \<le> folders_id_seq db"
      and "\<forall>f \<in> set (folders db). f_user_id f = u \<longrightarrow> f_name f \<noteq> n"
  shows "insert_folder (Some u) pn pts db =
     (Inr [\<lparr>f_id = folders_id_seq db + 1, f_user_id = u, f_name = n, f_timestamp = pts\<rparr>],
      db\<lparr>folders_id_seq := folders_id_seq db + 1,
         folders := folders db @
           [\<lparr>f_id = folders_id_seq db + 1, f_user_id = u, f_name = n, f_timestamp = pts\<rparr>]\<rparr>)"
proof -
  have u: "varchar_param 255 (Some u) = Inr (Some u)"
    using assms(1) by (simp add: varchar_param_def varchar_fits)
  have d: "(u, n) \<notin> set (map (\<lambda>f. (f_user_id f, f_name f)) (folders db))"
    using assms(5) by auto
  have k: "folders_id_seq db + 1 \<notin> set (map f_id (folders db))"
    using assms(4) by auto
  show ?thesis
    using u assms(2,3) d k
    by (simp add: insert_folder_def new_folder_def Let_def bind_e_def not_null_def require_def)
qed

lemma post_folders_effect:
  assumes "post_folders e user b db = (resp, db', log)" "truthy (b_name b)"
  shows "log = [Query (SqlInsertFolder (Some (uid user)) (prepareValue (b_name b)) (Some (clock e 0)))]
       \<and> users db' = users db \<and> thoughts db' = thoughts db
       \<and> (resp = internal_error \<and> folders db' = folders db
          \<or> (\<exists>row. resp = (201, FolderJson (Some row)) \<and> folders db' = folders db @ [row]
                \<and> varchar 255 (uid user) = Inr (f_user_id row)
                \<and> varchar_param 255 (prepareValue (b_name b)) = Inr (Some (f_name row))
                \<and> (f_user_id row, f_name row)
                     \<notin> set (map (\<lambda>f. (f_user_id f, f_name f)) (folders db))))"
proof -
  let ?i = "insert_folder (Some (uid user)) (prepareValue (b_name b)) (Some (clock e 0)) db"
  obtain res db1 where i: "?i = (res, db1)" by (cases ?i)
  show ?thesis
  proof (cases res)
    case (Inl err)
    with i have f: "?i = (Inl err, db1)" by simp
    note k = insert_folder_error [OF f]
    from assms f have "resp = internal_error" "db' = db1"
      "log = [Query (SqlInsertFolder (Some (uid user)) (prepareValue (b_name b)) (Some (clock e 0)))]"
      by (auto simp: post_folders_run)
    with k show ?thesis by simp
  next
    case (Inr rows)
    with i have f: "?i = (Inr rows, db1)" by simp
    from insert_folder_ok [OF f] obtain row where row: "rows = [row]"
      "folders db1 = folders db @ [row]"
      "varchar_param 255 (Some (uid user)) = Inr (Some (f_user_id row))"
      "varchar_param 255 (prepareValue (b_name b)) = Inr (Some (f_name row))"
      "(f_user_id row, f_name row) \<notin> set (map (\<lambda>f. (f_user_id f, f_name f)) (folders db))"
      "users db1 = users db" "thoughts db1 = thoughts db"
      by blast
    from row(3) have v: "varchar 255 (uid user) = Inr (f_user_id row)"
      by (auto simp: varchar_param_def split: sum.splits)
    from assms f row(1) have "resp = (201, FolderJson (Some row))" "db' = db1"
      "log = [Query (SqlInsertFolder (Some (uid user)) (prepareValue (b_name b)) (Some (clock e 0)))]"
      by (auto simp: post_folders_run first_row_def)
    with row v show ?thesis by auto
  qed
qed

text \<open>
  Folder creation apart from the user row: a name that fails the handler's test \<^verbatim>\<open>!name\<close> (absent,
  \<^verbatim>\<open>null\<close>, \<^verbatim>\<open>0\<close>, \<^verbatim>\<open>false\<close>, empty string) is answered 400 and issues no statement.
  Otherwise exactly one statement is issued, the insert with the verified owner; it
  either fails (answer 500, folders unchanged) or appends one row owned by the requester
  whose owner and name no earlier row has.  When the owner (an id that fits the column)
  already has a folder with the name as stored, the answer is 500 and the folders are
  unchanged (a uniqueness violation when the sequence is ahead of the stored ids).  When
  the owner has a user row, and no folder of this owner carries the name, the creation
  succeeds with the next id, whatever folders other owners have.
\<close>

lemma folder_creation_contract:
  assumes "post_folders e user b db = (resp, db', log)"
  shows "(\<not> truthy (b_name b) \<longrightarrow>
            resp = (400, ErrorJson ''Folder name is required'') \<and> db' = db \<and> log = [])
       \<and> (truthy (b_name b) \<longrightarrow>
            log = [Query (SqlInsertFolder (Some (uid user)) (prepareValue (b_name b))
                     (Some (clock e 0)))]
            \<and> users db' = users db \<and> thoughts db' = thoughts db
            \<and> (resp = internal_error \<and> folders db' = folders db
               \<or> (\<exists>row. resp = (201, FolderJson (Some row)) \<and> folders db' = folders db @ [row]
                     \<and> varchar 255 (uid user) = Inr (f_user_id row)
                     \<and> varchar_param 255 (prepareValue (b_name b)) = Inr (Some (f_name row))
                     \<and> (f_user_id row, f_name row)
                          \<notin> set (map (\<lambda>f. (f_user_id f, f_name f)) (folders db)))))
       \<and> (\<forall>n. truthy (b_name b) \<and> fits 255 (uid user)
              \<and> varchar_param 255 (prepareValue (b_name b)) = Inr (Some n)
              \<and> (\<exists>f \<in> set (folders db). f_user_id f = uid user \<and> f_name f = n) \<longrightarrow>
            resp = internal_error \<and> folders db' = folders db
            \<and> ((\<forall>f \<in> set (folders db). f_id f \<le> folders_id_seq db) \<longrightarrow>
                 fst (exec (SqlInsertFolder (Some (uid user)) (prepareValue (b_name b))
                        (Some (clock e 0))) db) = Inl UniqueViolation))
       \<and> (\<forall>n. truthy (b_name b) \<and> fits 255 (uid user)
              \<and> varchar_param 255 (prepareValue (b_name b)) = Inr (Some n)
              \<and> uid user \<in> set (map u_id (users db))
              \<and> (\<forall>f \<in> set (folders db). f_id f \<le> folders_id_seq db)
              \<and> (\<forall>f \<in> set (folders db). f_user_id f = uid user \<longrightarrow> f_name f \<noteq> n) \<longrightarrow>
            resp = (201, FolderJson (Some \<lparr>f_id = folders_id_seq db + 1, f_user_id = uid user,
                                            f_name = n, f_timestamp = Some (clock e 0)\<rparr>))
            \<and> folders db' = folders db @ [\<lparr>f_id = folders_id_seq db + 1, f_user_id = uid user,
                                             f_name = n, f_timestamp = Some (clock e 0)\<rparr>])"
proof -
  have a: "\<not> truthy (b_name b) \<longrightarrow>
            resp = (400, ErrorJson ''Folder name is required'') \<and> db' = db \<and> log = []"
    using assms by (auto simp: post_folders_missing_name)
  have b: "truthy (b_name b) \<longrightarrow>
            log = [Query (SqlInsertFolder (Some (uid user)) (prepareValue (b_name b))
                     (Some (clock e 0)))]
            \<and> users db' = users db \<and> thoughts db' = thoughts db
            \<and> (resp = internal_error \<and> folders db' = folders db
               \<or> (\<exists>row. resp = (201, FolderJson (Some row)) \<and> folders db' = folders db @ [row]
                     \<and> varchar 255 (uid user) = Inr (f_user_id row)
                     \<and> varchar_param 255 (prepareValue (b_name b)) = Inr (Some (f_name row))
                     \<and> (f_user_id row, f_name row)
                          \<notin> set (map (\<lambda>f. (f_user_id f, f_name f)) (folders db))))"
    using post_folders_effect [OF assms] by (rule impI)
  have c: "\<forall>n. truthy (b_name b) \<and> fits 255 (uid user)
              \<and> varchar_param 255 (prepareValue (b_name b)) = Inr (Some n)
              \<and> (\<exists>f \<in> set (folders db). f_user_id f = uid user \<and> f_name f = n) \<longrightarrow>
            resp = internal_error \<and> folders db' = folders db
            \<and> ((\<forall>f \<in> set (folders db). f_id f \<le> folders_id_seq db) \<longrightarrow>
                 fst (exec (SqlInsertFolder (Some (uid user)) (prepareValue (b_name b))
                        (Some (clock e 0))) db) = Inl UniqueViolation)"
  proof (intro allI impI)
    fix n
    assume h: "truthy (b_name b) \<and> fits 255 (uid user)
              \<and> varchar_param 255 (prepareValue (b_name b)) = Inr (Some n)
              \<and> (\<exists>f \<in> set (folders db). f_user_id f = uid user \<and> f_name f = n)"
    let ?i = "insert_folder (Some (uid user)) (prepareValue (b_name b)) (Some (clock e 0)) db"
    from h have l: "fits 255 (uid user)"
      and v: "varchar_param 255 (prepareValue (b_name b)) = Inr (Some n)"
      and d: "\<exists>f \<in> set (folders db). f_user_id f = uid user \<and> f_name f = n"
      and t: "truthy (b_name b)" by simp_all
    from insert_folder_duplicate(1) [OF l v d, of "Some (clock e 0)"] obtain err
      where "fst ?i = Inl err" by blast
    then obtain db1 where i: "?i = (Inl err, db1)" by (cases ?i) auto
    from assms t i have "resp = internal_error" "db' = db1"
      by (simp_all add: post_folders_run)
    with insert_folder_error [OF i] have r: "resp = internal_error \<and> folders db' = folders db"
      by simp
    have u: "(\<forall>f \<in> set (folders db). f_id f \<le> folders_id_seq db) \<longrightarrow>
                 fst (exec (SqlInsertFolder (Some (uid user)) (prepareValue (b_name b))
                        (Some (clock e 0))) db) = Inl UniqueViolation"
      using insert_folder_duplicate(2) [OF l v d]
      by (simp add: fst_with_rows_error)
    from r u show "resp = internal_error \<and> folders db' = folders db
            \<and> ((\<forall>f \<in> set (folders db). f_id f \<le> folders_id_seq db) \<longrightarrow>
                 fst (exec (SqlInsertFolder (Some (uid user)) (prepareValue (b_name b))
                        (Some (clock e 0))) db) = Inl UniqueViolation)"
      by simp
  qed
  have d: "\<forall>n. truthy (b_name b) \<and> fits 255 (uid user)
              \<and> varchar_param 255 (prepareValue (b_name b)) = Inr (Some n)
              \<and> uid user \<in> set (map u_id (users db))
              \<and> (\<forall>f \<in> set (folders db). f_id f \<le> folders_id_seq db)
              \<and> (\<forall>f \<in> set (folders db). f_user_id f = uid user \<longrightarrow> f_name f \<noteq> n) \<longrightarrow>
            resp = (201, FolderJson (Some \<lparr>f_id = folders_id_seq db + 1, f_user_id = uid user,
                                            f_name = n, f_timestamp = Some (clock e 0)\<rparr>))
            \<and> folders db' = folders db @ [\<lparr>f_id = folders_id_seq db + 1, f_user_id = uid user,
                                             f_name = n, f_timestamp = Some (clock e 0)\<rparr>]"
  proof (intro allI impI)
    fix n
    assume h: "truthy (b_name b) \<and> fits 255 (uid user)
              \<and> varchar_param 255 (prepareValue (b_name b)) = Inr (Some n)
              \<and> uid user \<in> set (map u_id (users db))
              \<and> (\<forall>f \<in> set (folders db). f_id f \<le> folders_id_seq db)
              \<and> (\<forall>f \<in> set (folders db). f_user_id f = uid user \<longrightarrow> f_name f \<noteq> n)"
    then have t: "truthy (b_name b)" and l: "fits 255 (uid user)"
      and v: "varchar_param 255 (prepareValue (b_name b)) = Inr (Some n)"
      and u: "uid user \<in> set (map u_id (users db))"
      and s: "\<forall>f \<in> set (folders db). f_id f \<le> folders_id_seq db"
      and f: "\<forall>f \<in> set (folders db). f_user_id f = uid user \<longrightarrow> f_name f \<noteq> n"
      by simp_all
    from assms t show "resp = (201, FolderJson (Some \<lparr>f_id = folders_id_seq db + 1, f_user_id = uid user,
                                            f_name = n, f_timestamp = Some (clock e 0)\<rparr>))
            \<and> folders db' = folders db @ [\<lparr>f_id = folders_id_seq db + 1, f_user_id = uid user,
                                             f_name = n, f_timestamp = Some (clock e 0)\<rparr>]"
      by (auto simp: post_folders_run insert_folder_fresh [OF l v u s f] first_row_def)
  qed
  show ?thesis
    by (intro conjI a b c d)
qed

lemma sample_second_owner_same_name:
  "post_folders sample_env bob (no_body\<lparr>b_name := JStr ''work''\<rparr>) filed_db
   = ((201, FolderJson (Some \<lparr>f_id = 2, f_user_id = ''B'', f_name = ''work'',
                               f_timestamp = Some ''2024-01-01T00:00:00.000Z''\<rparr>)),
      filed_db\<lparr>folders_id_seq := 2,
               folders := [\<lparr>f_id = 1, f_user_id = ''A'', f_name = ''work'',
                             f_timestamp = Some ''2024-01-01T00:00:00.000Z''\<rparr>,
                           \<lparr>f_id = 2, f_user_id = ''B'', f_name = ''work'',
                             f_timestamp = Some ''2024-01-01T00:00:00.000Z''\<rparr>]\<rparr>,
      [Query (SqlInsertFolder (Some ''B'') (Some ''work'') (Some ''2024-01-01T00:00:00.000Z''))])"
  by code_simp

lemma sample_same_owner_same_name:
  "post_folders sample_env alice (no_body\<lparr>b_name := JStr ''work''\<rparr>) filed_db
   = (internal_error, filed_db\<lparr>folders_id_seq := 2\<rparr>,
      [Query (SqlInsertFolder (Some ''A'') (Some ''work'') (Some ''2024-01-01T00:00:00.000Z''))])"
  by code_simp

lemma folder_creation_contract_sample:
  "truthy (b_name (no_body\<lparr>b_name := JStr ''work''\<rparr>))
   \<and> varchar_param 255 (prepareValue (b_name (no_body\<lparr>b_name := JStr ''work''\<rparr>))) = Inr (Some ''work'')
   \<and> (\<exists>f \<in> set (folders filed_db). f_user_id f = uid alice \<and> f_name f = ''work'')
   \<and> list_all (\<lambda>f. f_user_id f = uid bob \<longrightarrow> f_name f \<noteq> ''work'') (folders filed_db)
   \<and> uid bob \<in> set (map u_id (users filed_db))
   \<and> list_all (\<lambda>f. f_id f \<le> folders_id_seq filed_db) (folders filed_db)
   \<and> fst (post_folders sample_env alice (no_body\<lparr>b_name := JStr ''work''\<rparr>) filed_db)
       = internal_error
   \<and> fst (exec (SqlInsertFolder (Some (uid alice))
                  (prepareValue (b_name (no_body\<lparr>b_name := JStr ''work''\<rparr>)))
                  (Some (clock sample_env 0))) filed_db) = Inl UniqueViolation
   \<and> fst (post_folders sample_env bob (no_body\<lparr>b_name := JStr ''work''\<rparr>) filed_db)
       = (201, FolderJson (Some \<lparr>f_id = folders_id_seq filed_db + 1, f_user_id = uid bob,
             f_name = ''work'', f_timestamp = Some (clock sample_env 0)\<rparr>))"
proof -
  let ?b = "no_body\<lparr>b_name := JStr ''work''\<rparr>"
  have t: "truthy (b_name ?b)" by simp
  have v: "varchar_param 255 (prepareValue (b_name ?b)) = Inr (Some ''work'')"
    by (simp add: varchar_param_def varchar_def)
  have la: "fits 255 (uid alice)" and lb: "fits 255 (uid bob)"
    by (simp_all add: fits_def alice_def bob_def)
  have da: "\<exists>f \<in> set (folders filed_db). f_user_id f = uid alice \<and> f_name f = ''work''"
    by (simp add: filed_db_def alice_def)
  have fb: "\<forall>f \<in> set (folders filed_db). f_user_id f = uid bob \<longrightarrow> f_name f \<noteq> ''work''"
    by (simp add: filed_db_def bob_def)
  have ub: "uid bob \<in> set (map u_id (users filed_db))"
    by (simp add: filed_db_def bob_def)
  have s: "\<forall>f \<in> set (folders filed_db). f_id f \<le> folders_id_seq filed_db"
    by (simp add: filed_db_def)
  from folder_creation_contract [OF sample_same_owner_same_name] t la v da s
  have x: "fst (exec (SqlInsertFolder (Some (uid alice)) (prepareValue (b_name ?b))
                  (Some (clock sample_env 0))) filed_db) = Inl UniqueViolation"
    by blast
  from folder_creation_contract [OF sample_second_owner_same_name] t lb v ub s fb
  have "(201, FolderJson (Some \<lparr>f_id = 2, f_user_id = ''B'', f_name = ''work'',
                               f_timestamp = Some ''2024-01-01T00:00:00.000Z''\<rparr>))
        = (201, FolderJson (Some \<lparr>f_id = folders_id_seq filed_db + 1, f_user_id = uid bob,
             f_name = ''work'', f_timestamp = Some (clock sample_env 0)\<rparr>))"
    by blast
  then have y: "fst (post_folders sample_env bob ?b filed_db)
       = (201, FolderJson (Some \<lparr>f_id = folders_id_seq filed_db + 1, f_user_id = uid bob,
             f_name = ''work'', f_timestamp = Some (clock sample_env 0)\<rparr>))"
    by (simp only: sample_second_owner_same_name fst_conv)
  have z: "fst (post_folders sample_env alice ?b filed_db) = internal_error"
    by (simp only: sample_same_owner_same_name fst_conv)
  have fb': "list_all (\<lambda>f. f_user_id f = uid bob \<longrightarrow> f_name f \<noteq> ''work'') (folders filed_db)"
    using fb by (simp add: list_all_iff)
  have s': "list_all (\<lambda>f. f_id f \<le> folders_id_seq filed_db) (folders filed_db)"
    using s by (simp add: list_all_iff)
  show ?thesis
    by (intro conjI t v da fb' ub s' z x y)
qed

text \<open>
  C7, where the code departs from it: the same name under a different owner succeeds.
  \<open>folders.user_id\<close> references \<open>users\<close>, and a user row is provisioned by thought creation
  only; the handler of folder creation inserts the folder straight away.  In
  \<open>single_owner_db\<close> A owns the folder \<open>work\<close> and B, who holds a valid token, has not
  created a thought yet.  B's creation of a folder \<open>work\<close> is answered 500: the insert
  violates the foreign key, and no folder is added.  Once B has created a thought, the
  same request is answered 201.
\<close>

theorem folder_creation_needs_user_row:
  "map (\<lambda>f. (f_user_id f, f_name f)) (folders single_owner_db) = [(''A'', ''work'')]
   \<and> verifyIdToken sample_env ''tokB'' = Some bob
   \<and> select_user (Some (uid bob)) single_owner_db = []
   \<and> app sample_env
        \<lparr>req_method = POST, req_path = ''/api/folders'', authorization = Some ''Bearer tokB'',
         body = no_body\<lparr>b_name := JStr ''work''\<rparr>, json_error = None\<rparr> single_owner_db
       = (internal_error, single_owner_db\<lparr>folders_id_seq := 2\<rparr>,
          [Verify ''tokB'',
           Query (SqlInsertFolder (Some ''B'') (Some ''work'') (Some ''2024-01-01T00:00:00.000Z''))])
   \<and> fst (exec (SqlInsertFolder (Some ''B'') (Some ''work'') (Some ''2024-01-01T00:00:00.000Z''))
            single_owner_db) = Inl ForeignKeyViolation
   \<and> fst (app sample_env
        \<lparr>req_method = POST, req_path = ''/api/folders'', authorization = Some ''Bearer tokB'',
         body = no_body\<lparr>b_name := JStr ''work''\<rparr>, json_error = None\<rparr>
        (out_db (app sample_env
           \<lparr>req_method = POST, req_path = ''/api/thoughts'', authorization = Some ''Bearer tokB'',
            body = no_body\<lparr>b_text := JStr ''read'', b_section := JStr ''todo''\<rparr>, json_error = None\<rparr>
           single_owner_db)))
       = (201, FolderJson (Some \<lparr>f_id = 2, f_user_id = ''B'', f_name = ''work'',
                                   f_timestamp = Some ''2024-01-01T00:00:00.000Z''\<rparr>))"
  by code_simp

subsection \<open>Detaching a thought from its folder\<close>

lemma no_detach_intro:
  assumes "\<And>t'. t' \<in> set (thoughts db') \<Longrightarrow> t_folder t' = None \<Longrightarrow>
             (\<exists>t \<in> set (thoughts db). t_id t = t_id t' \<and> t_folder t = None)
             \<or> t_id t' \<notin> set (map t_id (thoughts db))"
  shows "no_detach db db'"
  using assms by (auto simp: no_detach_def list_all_iff list_ex_iff)

lemma no_detach_subset:
  "set (thoughts db') \<subseteq> set (thoughts db) \<Longrightarrow> no_detach db db'"
  by (rule no_detach_intro) auto

lemma no_detach_append:
  "thoughts db' = thoughts db @ [row] \<Longrightarrow> t_id row \<notin> set (map t_id (thoughts db)) \<Longrightarrow>
   no_detach db db'"
  by (rule no_detach_intro) auto

lemma no_detach_pairwise:
  assumes "list_all2 (\<lambda>t t'. t_id t' = t_id t \<and> (t_folder t \<noteq> None \<longrightarrow> t_folder t' \<noteq> None))
             (thoughts db) (thoughts db')"
  shows "no_detach db db'"
proof (rule no_detach_intro)
  fix t' assume a: "t' \<in> set (thoughts db')" "t_folder t' = None"
  from a(1) obtain k where k: "k < length (thoughts db')" "thoughts db' ! k = t'"
    by (auto simp: in_set_conv_nth)
  from assms have l: "length (thoughts db) = length (thoughts db')"
    by (rule list_all2_lengthD)
  from assms k l have "t_id t' = t_id (thoughts db ! k)"
    "t_folder (thoughts db ! k) \<noteq> None \<longrightarrow> t_folder t' \<noteq> None"
    by (auto simp: list_all2_conv_all_nth)
  with a(2) k l have "thoughts db ! k \<in> set (thoughts db)"
    "t_id (thoughts db ! k) = t_id t'" "t_folder (thoughts db ! k) = None"
    by auto
  then show "(\<exists>t \<in> set (thoughts db). t_id t = t_id t' \<and> t_folder t = None)
             \<or> t_id t' \<notin> set (map t_id (thoughts db))"
    by blast
qed

lemma coalesced_keeps_folder:
  "coalesced b t t' \<Longrightarrow>
   t_id t' = t_id t \<and> (t_folder t \<noteq> None \<longrightarrow> t_folder t' \<noteq> None)
   \<and> (b_folder b = JNull \<longrightarrow> t_folder t' = t_folder t)"
  by (auto simp: coalesced_def split: option.splits sum.splits)

lemma put_thoughts_keeps_folders:
  assumes "put_thoughts e user b db = (resp, db', log)"
  shows "list_all2 (\<lambda>t t'. t_id t' = t_id t \<and> (t_folder t \<noteq> None \<longrightarrow> t_folder t' \<noteq> None)
                       \<and> (b_folder b = JNull \<longrightarrow> t_folder t' = t_folder t))
           (thoughts db) (thoughts db')"
proof -
  from put_thoughts_rows [OF assms]
  have r: "list_all2 (\<lambda>t t'. if fst resp = 200
                              \<and> int4_param (prepareValue (b_id b)) = Inr (Some (t_id t))
                              \<and> t_user_id t = uid user
                           then coalesced b t t' else t' = t) (thoughts db) (thoughts db')"
    by (rule conjunct1)
  show ?thesis
    by (rule list_all2_mono [OF r]) (auto dest: coalesced_keeps_folder split: if_splits)
qed

lemma post_thoughts_thoughts:
  assumes "post_thoughts e user b db = (resp, db', log)"
  shows "thoughts db' = thoughts db
         \<or> (\<exists>row. thoughts db' = thoughts db @ [row] \<and> t_id row \<notin> set (map t_id (thoughts db)))"
proof (cases "select_user (Some (uid user)) db = []")
  case False
  with assms have "create_thought e user b db [Query (user_check_stmt user)] = (resp, db', log)"
    by (simp add: post_thoughts_known_user)
  from create_thought_effect [OF this] show ?thesis by auto
next
  case True
  let ?i = "insert_user (Some (uid user)) (Some (u_username (provisioned_user e user)))
             (u_email (provisioned_user e user)) None (Some (clock e 0)) db"
  show ?thesis
  proof (cases ?i)
    case (Inl err)
    with assms True show ?thesis by (simp add: post_thoughts_new_user)
  next
    case (Inr db2)
    from insert_user_result [OF Inr] have t: "thoughts db2 = thoughts db" by auto
    from Inr assms True have
      "create_thought e user b db2 [Query (user_check_stmt user), Query (user_insert_stmt e user)]
         = (resp, db', log)"
      by (simp add: post_thoughts_new_user)
    from create_thought_effect [OF this] t show ?thesis by auto
  qed
qed

lemma delete_thoughts_thoughts:
  assumes "delete_thoughts e user b db = (resp, db', log)"
  shows "set (thoughts db') \<subseteq> set (thoughts db)"
proof (cases "truthy (b_id b)")
  case False
  with assms show ?thesis by (auto simp: delete_thoughts_def)
next
  case True
  with assms show ?thesis
    by (auto simp: delete_thoughts_run delete_thought_def split: sum.splits if_splits)
qed

lemma get_thoughts_run:
  "get_thoughts e user b db = ((200, ThoughtsJson (select_thoughts (Some (uid user)) db)), db,
      [Query (SqlSelectThoughts (Some (uid user)))])"
  by (simp add: get_thoughts_def Let_def)

lemma update_folder_thoughts:
  "update_folder pn pid pu db = (res, db') \<Longrightarrow> thoughts db' = thoughts db"
  by (auto simp: update_folder_def split: sum.splits prod.splits)

lemma put_folders_thoughts:
  assumes "put_folders e user b db = (resp, db', log)"
  shows "thoughts db' = thoughts db"
proof -
  obtain res db1 where u: "update_folder (prepareValue (b_name b)) (prepareValue (b_id b))
       (Some (uid user)) db = (res, db1)"
    by (cases "update_folder (prepareValue (b_name b)) (prepareValue (b_id b)) (Some (uid user)) db")
  from update_folder_thoughts [OF u] assms u show ?thesis
    by (auto simp: put_folders_def with_rows_def Let_def split: if_splits sum.splits)
qed

lemma post_folders_thoughts:
  assumes "post_folders e user b db = (resp, db', log)"
  shows "thoughts db' = thoughts db"
proof (cases "truthy (b_name b)")
  case False
  with assms show ?thesis by (auto simp: post_folders_missing_name)
next
  case True
  from post_folders_effect [OF assms True] show ?thesis by simp
qed

lemma handler_no_detach:
  assumes "handler operation e user b db = (resp, db', log)" "operation \<noteq> FolderDelete"
  shows "no_detach db db'"
proof (cases operation)
  case ThoughtList
  with assms show ?thesis by (auto simp: get_thoughts_run intro: no_detach_subset)
next
  case ThoughtCreate
  with assms have "post_thoughts e user b db = (resp, db', log)" by simp
  from post_thoughts_thoughts [OF this] show ?thesis
    by (auto intro: no_detach_subset no_detach_append)
next
  case ThoughtUpdate
  with assms have "put_thoughts e user b db = (resp, db', log)" by simp
  from put_thoughts_keeps_folders [OF this] show ?thesis
    by (intro no_detach_pairwise) (auto elim: list_all2_mono)
next
  case ThoughtDelete
  with assms have "delete_thoughts e user b db = (resp, db', log)" by simp
  from delete_thoughts_thoughts [OF this] show ?thesis by (rule no_detach_subset)
next
  case FolderList
  with assms show ?thesis by (auto simp: get_folders_run intro: no_detach_subset)
next
  case FolderCreate
  with assms have "post_folders e user b db = (resp, db', log)" by simp
  from post_folders_thoughts [OF this] show ?thesis by (auto intro: no_detach_subset)
next
  case FolderUpdate
  with assms have "put_folders e user b db = (resp, db', log)" by simp
  from put_folders_thoughts [OF this] show ?thesis by (auto intro: no_detach_subset)
next
  case FolderDelete
  with assms show ?thesis by simp
qed

lemma app_cases:
  assumes "app e req db = (resp, db', log)"
  shows "db' = db
         \<or> (\<exists>operation user log'. lookup_route (req_method req) (req_path req) = Some operation
              \<and> handler operation e user (body req) db = (resp, db', log'))"
  using assms
  by (auto simp: app_def split: option.splits prod.splits sum.splits)

text \<open>
  C9: a thought update leaves every thought in place with its id, never turns a set
  folder reference into none, and with \<open>folder\<close> sent as \<^verbatim>\<open>null\<close> leaves every folder
  reference as it was.  More generally no request to a route other than folder deletion
  detaches a thought: a thought without a folder afterwards had none before, or is new.
\<close>

theorem only_folder_deletion_detaches:
  assumes "app e req db = (resp, db', log)"
  shows "(lookup_route (req_method req) (req_path req) = Some ThoughtUpdate \<longrightarrow>
            list_all2 (\<lambda>t t'. t_id t' = t_id t \<and> (t_folder t \<noteq> None \<longrightarrow> t_folder t' \<noteq> None)
                         \<and> (b_folder (body req) = JNull \<longrightarrow> t_folder t' = t_folder t))
              (thoughts db) (thoughts db'))
       \<and> (lookup_route (req_method req) (req_path req) \<noteq> Some FolderDelete \<longrightarrow>
            no_detach db db')"
proof (intro conjI impI)
  assume u: "lookup_route (req_method req) (req_path req) = Some ThoughtUpdate"
  from app_cases [OF assms] show "list_all2 (\<lambda>t t'. t_id t' = t_id t
                         \<and> (t_folder t \<noteq> None \<longrightarrow> t_folder t' \<noteq> None)
                         \<and> (b_folder (body req) = JNull \<longrightarrow> t_folder t' = t_folder t))
              (thoughts db) (thoughts db')"
  proof
    assume "db' = db"
    then show ?thesis by (simp add: list_all2_same)
  next
    assume "\<exists>operation user log'. lookup_route (req_method req) (req_path req) = Some operation
              \<and> handler operation e user (body req) db = (resp, db', log')"
    with u obtain user log' where "put_thoughts e user (body req) db = (resp, db', log')"
      by auto
    from put_thoughts_keeps_folders [OF this] show ?thesis .
  qed
next
  assume n: "lookup_route (req_method req) (req_path req) \<noteq> Some FolderDelete"
  from app_cases [OF assms] show "no_detach db db'"
  proof
    assume "db' = db"
    then show ?thesis by (auto intro: no_detach_subset)
  next
    assume "\<exists>operation user log'. lookup_route (req_method req) (req_path req) = Some operation
              \<and> handler operation e user (body req) db = (resp, db', log')"
    with n obtain operation user log' where "operation \<noteq> FolderDelete"
      "handler operation e user (body req) db = (resp, db', log')"
      by auto
    from handler_no_detach [OF this(2,1)] show ?thesis .
  qed
qed

lemma sample_null_folder_update:
  "app sample_env
     \<lparr>req_method = PUT, req_path = ''/api/thoughts'', authorization = Some ''Bearer tokB'',
      body = no_body\<lparr>b_id := JNum 2, b_folder := JNull, b_text := JStr ''read more''\<rparr>, json_error = None\<rparr> shared_db
   = ((200, ThoughtJson (Some \<lparr>t_id = 2, t_user_id = ''B'', t_text = ''read more'',
          t_section = ''todo'', t_folder = Some 1,
          t_timestamp = Some ''2024-01-01T00:00:00.000Z''\<rparr>)),
      shared_db\<lparr>thoughts :=
        [\<lparr>t_id = 1, t_user_id = ''A'', t_text = ''buy milk'', t_section = ''todo'',
          t_folder = None, t_timestamp = Some ''2024-01-01T00:00:00.000Z''\<rparr>,
         \<lparr>t_id = 2, t_user_id = ''B'', t_text = ''read more'', t_section = ''todo'',
          t_folder = Some 1, t_timestamp = Some ''2024-01-01T00:00:00.000Z''\<rparr>]\<rparr>,
      [Verify ''tokB'',
       Query (SqlUpdateThought (Some ''read more'') None None (Some ''2'') (Some ''B''))])"
  by code_simp

theorem only_folder_deletion_detaches_witness:
  "lookup_route PUT ''/api/thoughts'' = Some ThoughtUpdate
   \<and> app sample_env
     \<lparr>req_method = PUT, req_path = ''/api/thoughts'', authorization = Some ''Bearer tokB'',
      body = no_body\<lparr>b_id := JNum 2, b_folder := JNull, b_text := JStr ''read more''\<rparr>, json_error = None\<rparr> shared_db
   = ((200, ThoughtJson (Some \<lparr>t_id = 2, t_user_id = ''B'', t_text = ''read more'',
          t_section = ''todo'', t_folder = Some 1,
          t_timestamp = Some ''2024-01-01T00:00:00.000Z''\<rparr>)),
      shared_db\<lparr>thoughts :=
        [\<lparr>t_id = 1, t_user_id = ''A'', t_text = ''buy milk'', t_section = ''todo'',
          t_folder = None, t_timestamp = Some ''2024-01-01T00:00:00.000Z''\<rparr>,
         \<lparr>t_id = 2, t_user_id = ''B'', t_text = ''read more'', t_section = ''todo'',
          t_folder = Some 1, t_timestamp = Some ''2024-01-01T00:00:00.000Z''\<rparr>]\<rparr>,
      [Verify ''tokB'',
       Query (SqlUpdateThought (Some ''read more'') None None (Some ''2'') (Some ''B''))])
   \<and> no_detach shared_db (shared_db\<lparr>thoughts :=
        [\<lparr>t_id = 1, t_user_id = ''A'', t_text = ''buy milk'', t_section = ''todo'',
          t_folder = None, t_timestamp = Some ''2024-01-01T00:00:00.000Z''\<rparr>,
         \<lparr>t_id = 2, t_user_id = ''B'', t_text = ''read more'', t_section = ''todo'',
          t_folder = Some 1, t_timestamp = Some ''2024-01-01T00:00:00.000Z''\<rparr>]\<rparr>)"
proof -
  have r: "lookup_route PUT ''/api/thoughts'' = Some ThoughtUpdate"
    by (simp add: lookup_api_thoughts)
  then have n: "lookup_route (req_method \<lparr>req_method = PUT, req_path = ''/api/thoughts'',
        authorization = Some ''Bearer tokB'',
        body = no_body\<lparr>b_id := JNum 2, b_folder := JNull, b_text := JStr ''read more''\<rparr>, json_error = None\<rparr>)
      (req_path \<lparr>req_method = PUT, req_path = ''/api/thoughts'',
        authorization = Some ''Bearer tokB'',
        body = no_body\<lparr>b_id := JNum 2, b_folder := JNull, b_text := JStr ''read more''\<rparr>, json_error = None\<rparr>)
      \<noteq> Some FolderDelete"
    by simp
  from only_folder_deletion_detaches [OF sample_null_folder_update] n
  have "no_detach shared_db (shared_db\<lparr>thoughts :=
        [\<lparr>t_id = 1, t_user_id = ''A'', t_text = ''buy milk'', t_section = ''todo'',
          t_folder = None, t_timestamp = Some ''2024-01-01T00:00:00.000Z''\<rparr>,
         \<lparr>t_id = 2, t_user_id = ''B'', t_text = ''read more'', t_section = ''todo'',
          t_folder = Some 1, t_timestamp = Some ''2024-01-01T00:00:00.000Z''\<rparr>]\<rparr>)"
    by blast
  with r sample_null_folder_update show ?thesis
    by (intro conjI)
qed

end
